theory Spec2Isabelle
  imports Main "HOL-Library.AList"
begin

text \<open>
  A model of the IFC to CityGML converter (\<open>ifc_to_citygml.py\<close>) and of the round-trip
  validator (\<open>validate_roundtrip.py\<close>). The two libraries the scripts stand on are
  modelled by what the scripts use of them: an opened IFC model is the list of its entity
  instances, an \<open>lxml\<close> tree is a datatype, and the file system maps paths to what the
  files hold. Every exception the scripts catch is a value; the instance state of the
  converter and of the validator, the tree under construction and the files are passed
  in and returned. Logging and printing are left out.
\<close>

section \<open>Python values shared by the converter and the validator\<close>

text \<open>
  Optional IFC attributes are \<open>str\<close> or \<open>None\<close> in Python: a \<open>string option\<close>.
  \<open>truthy\<close> is Python's truth test on such a value (\<open>None\<close> and the empty string are
  false) and \<open>or_else x d\<close> is the expression \<open>x or d\<close> with a string \<open>d\<close>.
\<close>

definition truthy :: "string option \<Rightarrow> bool" where
  "truthy x = (case x of None \<Rightarrow> False | Some s \<Rightarrow> s \<noteq> [])"

definition or_else :: "string option \<Rightarrow> string \<Rightarrow> string" where
  "or_else x d = (case x of None \<Rightarrow> d | Some s \<Rightarrow> if s = [] then d else s)"

text \<open>\<open>str(n)\<close> for a non-negative Python int, as the f-strings render indices and counts.\<close>

definition digit_char :: "nat \<Rightarrow> char" where
  "digit_char d = ''0123456789'' ! (d mod 10)"

function str_nat :: "nat \<Rightarrow> string" where
  "str_nat n = (if n < 10 then [digit_char n] else str_nat (n div 10) @ [digit_char (n mod 10)])"
  by pat_completeness auto
termination
  by (relation "measure (\<lambda>n. n)") auto

declare str_nat.simps [simp del]

definition startswith :: "string \<Rightarrow> string \<Rightarrow> bool" where
  "startswith s p = (take (length p) s = p)"

definition endswith :: "string \<Rightarrow> string \<Rightarrow> bool" where
  "endswith s p = (length p \<le> length s \<and> drop (length s - length p) s = p)"

text \<open>
  \<open>s.replace(old, new)\<close> for a non-empty \<open>old\<close>: every non-overlapping occurrence,
  scanning from the left. (The scripts only call it with the literal \<open>"Storey::"\<close>; for an
  empty \<open>old\<close> the model returns \<open>s\<close> unchanged, which is not what Python does.)
\<close>

function replace :: "string \<Rightarrow> string \<Rightarrow> string \<Rightarrow> string" where
  "replace old new s =
     (if old \<noteq> [] \<and> startswith s old then new @ replace old new (drop (length old) s)
      else (case s of [] \<Rightarrow> [] | c # cs \<Rightarrow> c # replace old new cs))"
  by pat_completeness auto
termination
proof (relation "measure (\<lambda>(old, new, s). length s)")
  show "wf (measure (\<lambda>(old, new, s). length s))" by simp
next
  fix old new :: string and s :: string
  assume "old \<noteq> [] \<and> startswith s old"
  then have "old \<noteq> []" and "take (length old) s = old"
    by (simp_all add: startswith_def)
  then have "s \<noteq> []" by auto
  with \<open>old \<noteq> []\<close> show "((old, new, drop (length old) s), (old, new, s))
      \<in> measure (\<lambda>(old, new, s). length s)" by simp
next
  fix old new :: string and s :: string and c :: char and cs :: string
  assume "s = c # cs"
  then show "((old, new, cs), (old, new, s)) \<in> measure (\<lambda>(old, new, s). length s)" by simp
qed

declare replace.simps [simp del]

text \<open>
  The exceptions the two scripts can meet. \<open>NameError n\<close> is Python's own, for a name
  \<open>n\<close> that no scope binds; \<open>AttributeError\<close> is what a method call on \<open>None\<close> raises.
  The other three come from the libraries (opening a model file, parsing or writing an
  XML file, \<open>float\<close> on a string). Each carries its message, which the scripts only
  copy into their error strings.
\<close>

datatype exn = NameError string | AttributeError string | OSError string
  | XMLSyntaxError string | ValueError string

fun str_exn :: "exn \<Rightarrow> string" where
  "str_exn (NameError n) = ''name '' @ [CHR 0x27] @ n @ [CHR 0x27] @ '' is not defined''"
| "str_exn (AttributeError msg) = msg"
| "str_exn (OSError msg) = msg"
| "str_exn (XMLSyntaxError msg) = msg"
| "str_exn (ValueError msg) = msg"

section \<open>The entity source: an opened IFC model\<close>

text \<open>
  An entity instance as \<open>ifcopenshell\<close> exposes it, restricted to what the scripts read:
  its STEP id (\<open>entity.id()\<close>), its IFC class (\<open>entity.is_a(...)\<close>), the attributes of
  \<open>IfcRoot\<close>/\<open>IfcObject\<close>, the storey's \<open>Elevation\<close>, and the references a relationship
  holds. References are STEP ids. A float is not computed with anywhere: \<open>Elevation\<close> is
  \<open>None\<close> or the text \<open>str()\<close> gives for the float.
\<close>

record entity =
  step_id :: nat
  ifc_class :: string
  Name :: "string option"
  Description :: "string option"
  GlobalId :: "string option"
  ObjectType :: "string option"
  Elevation :: "string option"
  RelatingObject :: "nat option"
  RelatedObjects :: "nat list"
  RelatingClassification :: "nat option"

type_synonym ifc_file = "entity list"

definition is_a :: "entity \<Rightarrow> string \<Rightarrow> bool" where
  "is_a e t = (ifc_class e = t)"

definition by_type :: "ifc_file \<Rightarrow> string \<Rightarrow> entity list" where
  "by_type ifc_model t = filter (\<lambda>e. is_a e t) ifc_model"

definition by_id :: "ifc_file \<Rightarrow> nat \<Rightarrow> entity option" where
  "by_id ifc_model i = find (\<lambda>e. step_id e = i) ifc_model"

definition refers_to :: "entity \<Rightarrow> nat \<Rightarrow> bool" where
  "refers_to r i = (RelatingObject r = Some i \<or> i \<in> set (RelatedObjects r)
                     \<or> RelatingClassification r = Some i)"

text \<open>\<open>ifc_model.get_inverse(e)\<close>: the instances that reference \<open>e\<close>, in file order.\<close>

definition get_inverse :: "ifc_file \<Rightarrow> entity \<Rightarrow> entity list" where
  "get_inverse ifc_model e = filter (\<lambda>r. refers_to r (step_id e)) ifc_model"

text \<open>\<open>rel.RelatedObjects\<close> as instances; an id the file does not define is skipped.\<close>

definition related_objects :: "ifc_file \<Rightarrow> entity \<Rightarrow> entity list" where
  "related_objects ifc_model rel = List.map_filter (by_id ifc_model) (RelatedObjects rel)"

section \<open>The XML element tree\<close>

text \<open>
  An \<open>lxml\<close> element: tag in Clark notation (\<open>{namespace}local\<close>), attributes in
  insertion order, text (\<open>.text\<close>: what stands before the first child), children, and
  tail (\<open>.tail\<close>: what follows the element inside its parent). The scripts mutate elements in place through the
  references \<open>SubElement\<close> returns; here a reference is the path of child indices from
  the root of the tree, and every mutation returns the new tree. A handle that points
  outside the tree leaves it unchanged; the scripts only hold handles of elements they
  created. Names and attribute values are taken to be strings \<open>lxml\<close> accepts (no NUL
  or control characters), so that setting a text or an attribute does not raise.
\<close>

datatype xml = Element (tag: string) (attrib: "(string \<times> string) list")
                       (text_of: "string option") (children: "xml list")
                       (tail: "string option")

type_synonym handle = "nat list"

fun element_at :: "handle \<Rightarrow> xml \<Rightarrow> xml option" where
  "element_at [] e = Some e"
| "element_at (i # p) e =
     (if i < length (children e) then element_at p (children e ! i) else None)"

fun modify_at :: "handle \<Rightarrow> (xml \<Rightarrow> xml) \<Rightarrow> xml \<Rightarrow> xml" where
  "modify_at [] f e = f e"
| "modify_at (i # p) f e =
     (if i < length (children e)
      then Element (tag e) (attrib e) (text_of e)
             ((children e)[i := modify_at p f (children e ! i)]) (tail e)
      else e)"

definition append_child :: "xml \<Rightarrow> xml \<Rightarrow> xml" where
  "append_child c e = Element (tag e) (attrib e) (text_of e) (children e @ [c]) (tail e)"

definition set_text :: "string \<Rightarrow> xml \<Rightarrow> xml" where
  "set_text s e = Element (tag e) (attrib e) (Some s) (children e) (tail e)"

definition set_attr :: "string \<Rightarrow> string \<Rightarrow> xml \<Rightarrow> xml" where
  "set_attr k v e = Element (tag e) (AList.update k v (attrib e)) (text_of e) (children e) (tail e)"

text \<open>
  \<open>etree.SubElement(parent, tag, attrib)\<close>: a new empty element appended to \<open>parent\<close>;
  the result is the new tree and the reference to the new element.
\<close>

definition SubElement :: "xml \<Rightarrow> handle \<Rightarrow> string \<Rightarrow> (string \<times> string) list \<Rightarrow> xml \<times> handle" where
  "SubElement root parent t a =
     (case element_at parent root of
        None \<Rightarrow> (root, parent)
      | Some p \<Rightarrow> (modify_at parent (append_child (Element t a None [] None)) root,
                   parent @ [length (children p)]))"

text \<open>All elements of a tree in document order, the tree's root first.\<close>

fun descendants_or_self :: "xml \<Rightarrow> xml list" where
  "descendants_or_self (Element t a x cs t_tail) = Element t a x cs t_tail # concat (map descendants_or_self cs)"

definition CITYGML_NS :: string where "CITYGML_NS = ''http://www.opengis.net/citygml/2.0''"
definition GML_NS :: string where "GML_NS = ''http://www.opengis.net/gml''"
definition CORE :: string where "CORE = ''{'' @ CITYGML_NS @ ''}''"
definition GML :: string where "GML = ''{'' @ GML_NS @ ''}''"

section \<open>Files\<close>

text \<open>
  A path is a directory and a file name; two paths name the same file exactly when they are
  equal. A file holds an IFC model, an XML document, or something neither library reads.
  Writing an element tree and parsing the file again gives the tree back: tags,
  attributes, nesting and the text of the elements the converter fills are all the
  validator reads, and serialisation preserves them.
\<close>

datatype path = Path (parent: string) (name: string)

datatype content = IfcFile ifc_file | XmlFile xml | OtherFile

record filesystem =
  dirs :: "string list"
  files :: "(path \<times> content) list"

definition str_path :: "path \<Rightarrow> string" where
  "str_path p = (if parent p = ''.'' then name p
                 else if parent p = ''/'' then ''/'' @ name p
                 else parent p @ ''/'' @ name p)"

text \<open>
  \<open>PurePath.stem\<close>: the name without its last suffix; a dot that starts or ends the
  name starts no suffix.
\<close>

definition rfind_dot :: "string \<Rightarrow> nat option" where
  "rfind_dot n = (if CHR ''.'' \<in> set n
                  then Some (length n - 1 - length (takeWhile (\<lambda>c. c \<noteq> CHR ''.'') (rev n)))
                  else None)"

definition stem :: "string \<Rightarrow> string" where
  "stem n = (case rfind_dot n of
               None \<Rightarrow> n
             | Some i \<Rightarrow> if 0 < i \<and> i < length n - 1 then take i n else n)"

definition ifcopenshell_open :: "filesystem \<Rightarrow> path \<Rightarrow> exn + ifc_file" where
  "ifcopenshell_open fs p =
     (case map_of (files fs) p of
        Some (IfcFile ifc_model) \<Rightarrow> Inr ifc_model
      | _ \<Rightarrow> Inl (OSError (''Unable to open file for reading: '' @ str_path p)))"

definition etree_parse :: "filesystem \<Rightarrow> path \<Rightarrow> exn + xml" where
  "etree_parse fs p =
     (case map_of (files fs) p of
        Some (XmlFile doc) \<Rightarrow> Inr doc
      | Some _ \<Rightarrow> Inl (XMLSyntaxError (''Document is not well-formed XML: '' @ str_path p))
      | None \<Rightarrow> Inl (OSError (''Error reading file: '' @ str_path p)))"

definition path_exists :: "filesystem \<Rightarrow> string \<Rightarrow> bool" where
  "path_exists fs d = (d \<in> set (dirs fs))"

text \<open>\<open>mkdir(parents=True, exist_ok=True)\<close>.\<close>

definition mkdir :: "filesystem \<Rightarrow> string \<Rightarrow> filesystem" where
  "mkdir fs d = (if d \<in> set (dirs fs) then fs else fs\<lparr>dirs := dirs fs @ [d]\<rparr>)"

text \<open>\<open>input_dir.glob("*.ifc")\<close>: the files of the directory whose name ends in \<open>.ifc\<close>.\<close>

definition glob_ifc :: "filesystem \<Rightarrow> string \<Rightarrow> path list" where
  "glob_ifc fs d = filter (\<lambda>p. parent p = d \<and> endswith (name p) ''.ifc'') (remdups (map fst (files fs)))"

section \<open>The converter: \<open>ifc_to_citygml.py\<close>\<close>

record ConversionResult =
  success :: bool
  input_file :: string
  output_file :: string
  buildings_processed :: nat
  errors :: "string list"
  warnings :: "string list"

text \<open>The instance state of \<open>IFCToCityGMLConverter\<close>.\<close>

record converter =
  self_buildings_processed :: nat
  self_errors :: "string list"
  self_warnings :: "string list"

definition init_converter :: converter where
  "init_converter = \<lparr>self_buildings_processed = 0, self_errors = [], self_warnings = []\<rparr>"

definition create_citymodel_root :: xml where
  "create_citymodel_root =
     (let root = Element (CORE @ ''CityModel'') [] None [] None;
          (root, bnd) = SubElement root [] (GML @ ''boundedBy'') [];
          (root, null_element) = SubElement root bnd (GML @ ''Null'') [(''reason'', ''unknown'')]
      in modify_at null_element (set_text ''unknown'') root)"

definition add_building :: "xml \<Rightarrow> string \<Rightarrow> string \<Rightarrow> xml \<times> handle" where
  "add_building citymodel nm gml_id =
     (let (citymodel, member) = SubElement citymodel [] (CORE @ ''cityObjectMember'') [];
          (citymodel, building) = SubElement citymodel member (CORE @ ''Building'') [(GML @ ''id'', gml_id)];
          (citymodel, name_element) = SubElement citymodel building (GML @ ''name'') []
      in (modify_at name_element (set_text nm) citymodel, building))"

record storey_info =
  storey_name :: string
  storey_elevation :: "string option"
  storey_global_id :: "string option"
  storey_description :: string

definition extract_building_storeys :: "ifc_file \<Rightarrow> entity \<Rightarrow> storey_info list" where
  "extract_building_storeys ifc_model building =
     concat (map (\<lambda>rel.
        if is_a rel ''IfcRelAggregates''
        then map (\<lambda>obj. \<lparr>storey_name = or_else (Name obj) (''Storey_'' @ str_nat (step_id obj)),
                         storey_elevation = Elevation obj,
                         storey_global_id = GlobalId obj,
                         storey_description = or_else (Description obj) []\<rparr>)
               (filter (\<lambda>obj. is_a obj ''IfcBuildingStorey'') (related_objects ifc_model rel))
        else [])
      (get_inverse ifc_model building))"

text \<open>\<open>str(storey['elevation'])\<close>.\<close>

definition str_elevation :: "string option \<Rightarrow> string" where
  "str_elevation v = (case v of None \<Rightarrow> ''None'' | Some s \<Rightarrow> s)"

definition add_generic_attribute :: "xml \<Rightarrow> handle \<Rightarrow> string \<Rightarrow> string \<Rightarrow> xml" where
  "add_generic_attribute root building_element k v =
     (let (root, attr) = SubElement root building_element (CORE @ ''genericAttribute'') [];
          root = modify_at attr (set_attr ''name'' k) root
      in modify_at attr (set_attr ''value'' v) root)"

definition add_storey_information :: "xml \<Rightarrow> handle \<Rightarrow> storey_info list \<Rightarrow> xml" where
  "add_storey_information root building_element storeys =
     fold (\<lambda>storey root.
        let (root, storey_nm) = SubElement root building_element (GML @ ''name'') [];
            root = modify_at storey_nm (set_text (''Storey::'' @ storey_name storey)) root
        in add_generic_attribute root building_element ''storey_elevation''
             (str_elevation (storey_elevation storey)))
      storeys root"

text \<open>
  \<open>extract_building_properties\<close> reads the name \<open>ifc_model\<close>, which is neither a
  parameter nor a local of the method: Python looks it up among the module's globals when
  the line runs. \<open>global_ifc_model\<close> is what that lookup finds; the module as written
  binds no such name (\<open>module_ifc_model\<close>), and the lookup raises \<open>NameError\<close>.
\<close>

definition module_ifc_model :: "ifc_file option" where
  "module_ifc_model = None"

definition set_if_truthy :: "string \<Rightarrow> string option \<Rightarrow> (string \<times> string) list \<Rightarrow> (string \<times> string) list" where
  "set_if_truthy k v properties =
     (case v of None \<Rightarrow> properties
      | Some s \<Rightarrow> if s = [] then properties else AList.update k s properties)"

definition extract_building_properties :: "ifc_file option \<Rightarrow> entity \<Rightarrow> exn + (string \<times> string) list" where
  "extract_building_properties global_ifc_model building =
     (let properties = [];
          properties = set_if_truthy ''name'' (Name building) properties;
          properties = set_if_truthy ''description'' (Description building) properties;
          properties = set_if_truthy ''global_id'' (GlobalId building) properties;
          properties = set_if_truthy ''object_type'' (ObjectType building) properties
      in case global_ifc_model of
           None \<Rightarrow> Inl (NameError ''ifc_model'')
         | Some ifc_model \<Rightarrow>
             Inr (fold (\<lambda>rel properties.
                    if is_a rel ''IfcRelAssociatesClassification''
                    then fold (\<lambda>obj properties.
                           if obj = building
                           then (case Option.bind (RelatingClassification rel) (by_id ifc_model) of
                                   None \<Rightarrow> properties
                                 | Some classification \<Rightarrow>
                                     AList.update ''classification''
                                       (or_else (Name classification) ''Unknown'') properties)
                           else properties)
                         (related_objects ifc_model rel) properties
                    else properties)
                  (get_inverse ifc_model building) properties))"

definition add_building_properties :: "xml \<Rightarrow> handle \<Rightarrow> (string \<times> string) list \<Rightarrow> xml" where
  "add_building_properties root building_element properties =
     fold (\<lambda>(k, v) root.
        if k \<noteq> ''name'' then add_generic_attribute root building_element k v else root)
      properties root"

definition write_citygml :: "filesystem \<Rightarrow> xml \<Rightarrow> path \<Rightarrow> exn + filesystem" where
  "write_citygml fs citymodel output_path =
     (if parent output_path \<in> set (dirs fs)
      then Inr (fs\<lparr>files := AList.update output_path (XmlFile citymodel) (files fs)\<rparr>)
      else Inl (OSError (''Error writing file: '' @ str_path output_path)))"

text \<open>The body of the \<open>try\<close> inside the loop, up to the counter increment.\<close>

definition process_building :: "ifc_file option \<Rightarrow> ifc_file \<Rightarrow> nat \<Rightarrow> entity \<Rightarrow> xml \<Rightarrow> xml \<times> (exn + unit)" where
  "process_building global_ifc_model ifc_model idx building citymodel =
     (let building_name = or_else (Some (or_else (Name building) (''Building_'' @ str_nat idx)))
                            (''Building_'' @ str_nat idx);
          building_id = ''b-'' @ str_nat idx;
          (citymodel, building_element) = add_building citymodel building_name building_id;
          storeys = extract_building_storeys ifc_model building;
          citymodel = (if storeys \<noteq> [] then add_storey_information citymodel building_element storeys
                       else citymodel)
      in case extract_building_properties global_ifc_model building of
           Inl e \<Rightarrow> (citymodel, Inl e)
         | Inr properties \<Rightarrow>
             (add_building_properties citymodel building_element properties, Inr ()))"

definition building_error_msg :: "nat \<Rightarrow> exn \<Rightarrow> string" where
  "building_error_msg idx e = ''Error processing building '' @ str_nat idx @ '': '' @ str_exn e"

text \<open>\<open>for idx, building in enumerate(buildings)\<close> with its \<open>try\<close>/\<open>except Exception\<close>.\<close>

fun for_buildings :: "ifc_file option \<Rightarrow> ifc_file \<Rightarrow> nat \<Rightarrow> entity list \<Rightarrow> converter \<times> xml \<Rightarrow> converter \<times> xml" where
  "for_buildings g ifc_model idx [] st = st"
| "for_buildings g ifc_model idx (building # rest) (self, citymodel) =
     (case process_building g ifc_model idx building citymodel of
        (citymodel, Inr u) \<Rightarrow>
          for_buildings g ifc_model (Suc idx) rest
            (self\<lparr>self_buildings_processed := self_buildings_processed self + 1\<rparr>, citymodel)
      | (citymodel, Inl e) \<Rightarrow>
          for_buildings g ifc_model (Suc idx) rest
            (self\<lparr>self_errors := self_errors self @ [building_error_msg idx e]\<rparr>, citymodel))"

text \<open>The outer \<open>except Exception\<close> of \<open>process_ifc_file\<close>.\<close>

definition file_failure :: "converter \<Rightarrow> filesystem \<Rightarrow> path \<Rightarrow> exn \<Rightarrow> converter \<times> filesystem \<times> ConversionResult" where
  "file_failure self fs ifc_path e =
     (let error_msg = ''Error processing IFC file '' @ str_path ifc_path @ '': '' @ str_exn e;
          self = self\<lparr>self_errors := self_errors self @ [error_msg]\<rparr>
      in (self, fs,
          \<lparr>success = False, input_file = str_path ifc_path, output_file = [],
           buildings_processed = 0, errors = self_errors self, warnings = self_warnings self\<rparr>))"

definition output_path :: "path \<Rightarrow> string \<Rightarrow> path" where
  "output_path ifc_path output_dir = Path output_dir (stem (name ifc_path) @ ''.gml'')"

definition process_ifc_file :: "ifc_file option \<Rightarrow> converter \<Rightarrow> filesystem \<Rightarrow> path \<Rightarrow> string
    \<Rightarrow> converter \<times> filesystem \<times> ConversionResult" where
  "process_ifc_file global_ifc_model self fs ifc_path output_dir =
     (let self = self\<lparr>self_buildings_processed := 0, self_errors := [], self_warnings := []\<rparr>
      in case ifcopenshell_open fs ifc_path of
           Inl e \<Rightarrow> file_failure self fs ifc_path e
         | Inr ifc_model \<Rightarrow>
             (let citymodel = create_citymodel_root;
                  buildings = by_type ifc_model ''IfcBuilding'';
                  self = (if buildings = []
                          then (let self = self\<lparr>self_warnings := self_warnings self
                                              @ [''No IfcBuilding entities found in IFC file'']\<rparr>;
                                    storeys = by_type ifc_model ''IfcBuildingStorey''
                                in if storeys \<noteq> []
                                   then self\<lparr>self_warnings := self_warnings self
                                          @ [''Found '' @ str_nat (length storeys)
                                             @ '' building storeys without building entity'']\<rparr>
                                   else self)
                          else self);
                  (self, citymodel) = for_buildings global_ifc_model ifc_model 0 buildings (self, citymodel);
                  output_file = output_path ifc_path output_dir
              in case write_citygml fs citymodel output_file of
                   Inl e \<Rightarrow> file_failure self fs ifc_path e
                 | Inr fs \<Rightarrow>
                     (self, fs,
                      \<lparr>success = (length (self_errors self) = 0),
                       input_file = str_path ifc_path,
                       output_file = str_path output_file,
                       buildings_processed = self_buildings_processed self,
                       errors = self_errors self,
                       warnings = self_warnings self\<rparr>)))"

text \<open>
  \<open>main\<close>: the arguments are \<open>sys.argv\<close> (the script's name first); the result is the
  file system the run leaves and the status \<open>sys.exit\<close> is called with. What the run
  prints is not modelled.
\<close>

fun convert_files :: "ifc_file option \<Rightarrow> string \<Rightarrow> path list \<Rightarrow> converter \<times> filesystem \<times> nat \<times> nat
    \<Rightarrow> converter \<times> filesystem \<times> nat \<times> nat" where
  "convert_files g output_dir [] st = st"
| "convert_files g output_dir (ifc_file # rest) (converter, fs, successful_conversions, total_buildings) =
     (case process_ifc_file g converter fs ifc_file output_dir of
        (converter, fs, result) \<Rightarrow>
          convert_files g output_dir rest
            (if success result
             then (converter, fs, successful_conversions + 1,
                   total_buildings + buildings_processed result)
             else (converter, fs, successful_conversions, total_buildings)))"

definition main :: "ifc_file option \<Rightarrow> string list \<Rightarrow> filesystem \<Rightarrow> filesystem \<times> nat" where
  "main g argv fs =
     (if length argv < 3 then (fs, 2)
      else let input_dir = argv ! 1; output_dir = argv ! 2
           in if \<not> path_exists fs input_dir then (fs, 1)
              else let fs = mkdir fs output_dir;
                       ifc_files = glob_ifc fs input_dir
                   in if ifc_files = [] then (fs, 1)
                      else (case convert_files g output_dir ifc_files (init_converter, fs, 0, 0) of
                              (converter, fs, successful_conversions, total_buildings) \<Rightarrow>
                                if successful_conversions = length ifc_files then (fs, 0)
                                else (fs, 1)))"

section \<open>The validator: \<open>validate_roundtrip.py\<close>\<close>

record ParityResult =
  ifc_file :: string
  citygml_file :: string
  buildings_parity :: bool
  storeys_parity :: bool
  properties_parity :: bool
  ifc_buildings :: nat
  citygml_buildings :: nat
  ifc_storeys :: nat
  citygml_storeys :: nat
  parity_errors :: "string list"
  parity_warnings :: "string list"

text \<open>The instance state of \<open>RoundTripValidator\<close>.\<close>

record validator =
  v_errors :: "string list"
  v_warnings :: "string list"

definition init_validator :: validator where
  "init_validator = \<lparr>v_errors = [], v_warnings = []\<rparr>"

text \<open>
  The metadata dictionaries, one record per shape. \<open>csm_elevation\<close> is the text \<open>float\<close>
  read, \<open>None\<close> when the document has no elevation attribute (Python stores \<open>0.0\<close>
  then); \<open>validate_parity\<close> never looks at it.
\<close>

record ifc_building_metadata =
  ibm_name :: string
  ibm_global_id :: "string option"
  ibm_description :: string
  ibm_object_type :: string

record citygml_building_metadata =
  cbm_name :: "string option"
  cbm_attributes :: "(string \<times> string option) list"

record citygml_storey_metadata =
  csm_name :: string
  csm_elevation :: "string option"

definition count_ifc_buildings :: "validator \<Rightarrow> filesystem \<Rightarrow> path
    \<Rightarrow> validator \<times> nat \<times> ifc_building_metadata list" where
  "count_ifc_buildings self fs ifc_path =
     (case ifcopenshell_open fs ifc_path of
        Inr ifc_model \<Rightarrow>
          (let buildings = by_type ifc_model ''IfcBuilding'';
               building_metadata =
                 map (\<lambda>building.
                        \<lparr>ibm_name = or_else (Name building) (''Building_'' @ str_nat (step_id building)),
                         ibm_global_id = GlobalId building,
                         ibm_description = or_else (Description building) [],
                         ibm_object_type = or_else (ObjectType building) []\<rparr>) buildings
           in (self, length buildings, building_metadata))
      | Inl e \<Rightarrow>
          (self\<lparr>v_errors := v_errors self
                  @ [''Error reading IFC file '' @ str_path ifc_path @ '': '' @ str_exn e]\<rparr>, 0, []))"

definition count_ifc_storeys :: "validator \<Rightarrow> filesystem \<Rightarrow> path
    \<Rightarrow> validator \<times> nat \<times> storey_info list" where
  "count_ifc_storeys self fs ifc_path =
     (case ifcopenshell_open fs ifc_path of
        Inr ifc_model \<Rightarrow>
          (let storeys = by_type ifc_model ''IfcBuildingStorey'';
               storey_metadata =
                 map (\<lambda>storey.
                        \<lparr>storey_name = or_else (Name storey) (''Storey_'' @ str_nat (step_id storey)),
                         storey_elevation = Elevation storey,
                         storey_global_id = GlobalId storey,
                         storey_description = or_else (Description storey) []\<rparr>) storeys
           in (self, length storeys, storey_metadata))
      | Inl e \<Rightarrow>
          (self\<lparr>v_errors := v_errors self
                  @ [''Error reading IFC storeys '' @ str_path ifc_path @ '': '' @ str_exn e]\<rparr>, 0, []))"

text \<open>
  The XPath queries. \<open>//t\<close> from the document: every element with tag \<open>t\<close>, in document
  order. \<open>.//t\<close> from an element: the same among its proper descendants.
\<close>

definition xpath_all :: "xml \<Rightarrow> string \<Rightarrow> xml list" where
  "xpath_all doc t = filter (\<lambda>e. tag e = t) (descendants_or_self doc)"

definition xpath_below :: "xml \<Rightarrow> string \<Rightarrow> xml list" where
  "xpath_below e t = filter (\<lambda>d. tag d = t) (concat (map descendants_or_self (children e)))"

text \<open>
  The predicate \<open>[starts-with(text(), p)]\<close>. \<open>text()\<close> selects the text nodes that are
  children of the element, in document order: its \<open>.text\<close>, then the tail of each child;
  an empty string is no text node. \<open>starts-with\<close> reads the first of them, and the empty
  string when there is none.
\<close>

definition text_nodes :: "xml \<Rightarrow> string list" where
  "text_nodes e = filter (\<lambda>s. s \<noteq> []) (List.map_filter (\<lambda>x. x) (text_of e # map tail (children e)))"

definition text_starts_with :: "xml \<Rightarrow> string \<Rightarrow> bool" where
  "text_starts_with e p = startswith (case text_nodes e of [] \<Rightarrow> [] | s # _ \<Rightarrow> s) p"

definition count_citygml_buildings :: "validator \<Rightarrow> filesystem \<Rightarrow> path
    \<Rightarrow> validator \<times> nat \<times> citygml_building_metadata list" where
  "count_citygml_buildings self fs citygml_path =
     (case etree_parse fs citygml_path of
        Inr doc \<Rightarrow>
          (let buildings = xpath_all doc (CORE @ ''Building'');
               building_metadata =
                 map (\<lambda>building.
                        let name_elements = xpath_below building (GML @ ''name'');
                            nm = (case name_elements of [] \<Rightarrow> Some ''Unknown'' | e # _ \<Rightarrow> text_of e);
                            attr_elements = xpath_below building (CORE @ ''genericAttribute'');
                            attributes =
                              fold (\<lambda>attr attributes.
                                      case map_of (attrib attr) ''name'' of
                                        None \<Rightarrow> attributes
                                      | Some attr_name \<Rightarrow>
                                          if attr_name \<noteq> []
                                          then AList.update attr_name (map_of (attrib attr) ''value'') attributes
                                          else attributes)
                                   attr_elements []
                        in \<lparr>cbm_name = nm, cbm_attributes = attributes\<rparr>) buildings
           in (self, length buildings, building_metadata))
      | Inl e \<Rightarrow>
          (self\<lparr>v_errors := v_errors self
                  @ [''Error reading CityGML file '' @ str_path citygml_path @ '': '' @ str_exn e]\<rparr>, 0, []))"

text \<open>
  \<open>float(s)\<close> on a string: the value is not computed here, only whether Python accepts
  the text (surrounding white space, a sign, then \<open>inf\<close>, \<open>infinity\<close>, \<open>nan\<close> or a decimal
  literal with an optional exponent, underscores between digits) or raises
  \<open>ValueError\<close>. An accepted text stands for its float. A \<open>char\<close> is a code point below
  256: the white space Python strips there is the ASCII white space, \<open>U+0085\<close> and
  \<open>U+00A0\<close>, and the only decimal digits are \<open>0\<close> to \<open>9\<close>. Text with code points from
  256 on is outside what a \<open>string\<close> holds.
\<close>

definition is_digit :: "char \<Rightarrow> bool" where
  "is_digit c = (c \<in> set ''0123456789'')"

definition is_space :: "char \<Rightarrow> bool" where
  "is_space c = (c \<in> set [CHR 0x09, CHR 0x0A, CHR 0x0B, CHR 0x0C, CHR 0x0D,
                            CHR 0x1C, CHR 0x1D, CHR 0x1E, CHR 0x1F, CHR 0x20,
                            CHR 0x85, CHR 0xA0])"

definition strip :: "string \<Rightarrow> string" where
  "strip s = rev (dropWhile is_space (rev (dropWhile is_space s)))"

definition lower_char :: "char \<Rightarrow> char" where
  "lower_char c = (let n = (of_char c :: nat) in if 65 \<le> n \<and> n \<le> 90 then char_of (n + 32) else c)"

fun underscores_ok :: "bool \<Rightarrow> string \<Rightarrow> bool" where
  "underscores_ok prev_digit [] = True"
| "underscores_ok prev_digit (c # cs) =
     (if c = CHR ''_''
      then prev_digit \<and> (case cs of [] \<Rightarrow> False | d # _ \<Rightarrow> is_digit d) \<and> underscores_ok False cs
      else underscores_ok (is_digit c) cs)"

definition drop_sign :: "string \<Rightarrow> string" where
  "drop_sign s = (case s of [] \<Rightarrow> [] | c # cs \<Rightarrow> if c = CHR ''+'' \<or> c = CHR ''-'' then cs else s)"

definition decimal_ok :: "string \<Rightarrow> bool" where
  "decimal_ok s =
     (let int_part = takeWhile is_digit s;
          r = dropWhile is_digit s;
          (frac_part, r) = (case r of
                              [] \<Rightarrow> ([], r)
                            | c # cs \<Rightarrow> if c = CHR ''.''
                                        then (takeWhile is_digit cs, dropWhile is_digit cs)
                                        else ([], r))
      in \<not> (int_part = [] \<and> frac_part = [])
         \<and> (case r of
               [] \<Rightarrow> True
             | c # cs \<Rightarrow> (c = CHR ''e'' \<or> c = CHR ''E'')
                         \<and> drop_sign cs \<noteq> [] \<and> list_all is_digit (drop_sign cs)))"

definition float_ok :: "string \<Rightarrow> bool" where
  "float_ok s =
     (let t = strip s;
          u = filter (\<lambda>c. c \<noteq> CHR ''_'') (drop_sign t)
      in underscores_ok False t
         \<and> (map lower_char u \<in> set [''inf'', ''infinity'', ''nan''] \<or> decimal_ok u))"

definition py_float :: "string \<Rightarrow> exn + string" where
  "py_float s = (if float_ok s then Inr s
                 else Inl (ValueError (''could not convert string to float: ''
                                        @ [CHR 0x27] @ s @ [CHR 0x27])))"

text \<open>
  The loop of \<open>count_citygml_storeys\<close> over the matched name elements. It stops at the
  first exception, which the method's \<open>except\<close> then catches: the \<open>AttributeError\<close> of
  \<open>name_elem.text.replace\<close> when the element's \<open>.text\<close> is \<open>None\<close> (the query matched on
  a later text node), or the \<open>ValueError\<close> of \<open>float\<close>.
\<close>

fun storey_metadata_loop :: "xml \<Rightarrow> xml list \<Rightarrow> citygml_storey_metadata list
    \<Rightarrow> exn + citygml_storey_metadata list" where
  "storey_metadata_loop doc [] storey_metadata = Inr storey_metadata"
| "storey_metadata_loop doc (name_elem # rest) storey_metadata =
     (case text_of name_elem of
        None \<Rightarrow> Inl (AttributeError ([CHR 0x27] @ ''NoneType'' @ [CHR 0x27]
                     @ '' object has no attribute '' @ [CHR 0x27] @ ''replace'' @ [CHR 0x27]))
      | Some name_text \<Rightarrow>
          (let storey_nm = replace ''Storey::'' [] name_text;
               elevation_attrs = filter (\<lambda>a. map_of (attrib a) ''name'' = Some ''storey_elevation'')
                                   (xpath_all doc (CORE @ ''genericAttribute''))
           in case (case elevation_attrs of
                      [] \<Rightarrow> Inr None
                    | a # _ \<Rightarrow> (case py_float (case map_of (attrib a) ''value'' of
                                                    None \<Rightarrow> ''0'' | Some v \<Rightarrow> v) of
                                  Inl e \<Rightarrow> Inl e
                                | Inr f \<Rightarrow> Inr (Some f))) of
                Inl e \<Rightarrow> Inl e
              | Inr elevation \<Rightarrow>
                  storey_metadata_loop doc rest
                    (storey_metadata @ [\<lparr>csm_name = storey_nm, csm_elevation = elevation\<rparr>])))"

definition count_citygml_storeys :: "validator \<Rightarrow> filesystem \<Rightarrow> path
    \<Rightarrow> validator \<times> nat \<times> citygml_storey_metadata list" where
  "count_citygml_storeys self fs citygml_path =
     (let failed = (\<lambda>e. (self\<lparr>v_errors := v_errors self
                            @ [''Error reading CityGML storeys '' @ str_path citygml_path
                               @ '': '' @ str_exn e]\<rparr>, 0, []))
      in case etree_parse fs citygml_path of
           Inl e \<Rightarrow> failed e
         | Inr doc \<Rightarrow>
             (let storey_names =
                    filter (\<lambda>e. text_starts_with e ''Storey::'') (xpath_all doc (GML @ ''name''))
              in case storey_metadata_loop doc storey_names [] of
                   Inl e \<Rightarrow> failed e
                 | Inr storey_metadata \<Rightarrow> (self, length storey_names, storey_metadata)))"

definition validate_parity :: "validator \<Rightarrow> filesystem \<Rightarrow> path \<Rightarrow> path \<Rightarrow> validator \<times> ParityResult" where
  "validate_parity self fs ifc_path citygml_path =
     (let self = self\<lparr>v_errors := [], v_warnings := []\<rparr>;
          (self, n_ifc_buildings, ifc_building_metadata) = count_ifc_buildings self fs ifc_path;
          (self, n_ifc_storeys, ifc_storey_metadata) = count_ifc_storeys self fs ifc_path;
          (self, n_citygml_buildings, citygml_building_metadata) = count_citygml_buildings self fs citygml_path;
          (self, n_citygml_storeys, citygml_storey_metadata) = count_citygml_storeys self fs citygml_path;
          b_parity = (n_ifc_buildings = n_citygml_buildings);
          self = (if \<not> b_parity
                  then self\<lparr>v_errors := v_errors self
                         @ [''Building count mismatch: IFC='' @ str_nat n_ifc_buildings
                            @ '', CityGML='' @ str_nat n_citygml_buildings]\<rparr>
                  else self);
          s_parity = (n_ifc_storeys = n_citygml_storeys);
          self = (if \<not> s_parity
                  then self\<lparr>v_errors := v_errors self
                         @ [''Storeys count mismatch: IFC='' @ str_nat n_ifc_storeys
                            @ '', CityGML='' @ str_nat n_citygml_storeys]\<rparr>
                  else self);
          (p_parity, self) =
             (if n_ifc_buildings > 0 \<and> n_citygml_buildings > 0
              then (let ifc_names = map ibm_name ifc_building_metadata;
                        citygml_names = map cbm_name citygml_building_metadata
                    in if set (map Some ifc_names) \<noteq> set citygml_names
                       then (False, self\<lparr>v_errors := v_errors self
                                      @ [''Building names not preserved in CityGML'']\<rparr>)
                       else (True, self))
              else (True, self));
          self = (if n_ifc_buildings = 0
                  then self\<lparr>v_warnings := v_warnings self @ [''No buildings found in IFC file'']\<rparr>
                  else self);
          self = (if n_citygml_buildings = 0
                  then self\<lparr>v_warnings := v_warnings self @ [''No buildings found in CityGML file'']\<rparr>
                  else self)
      in (self,
          \<lparr>ifc_file = str_path ifc_path,
           citygml_file = str_path citygml_path,
           buildings_parity = b_parity,
           storeys_parity = s_parity,
           properties_parity = p_parity,
           ifc_buildings = n_ifc_buildings,
           citygml_buildings = n_citygml_buildings,
           ifc_storeys = n_ifc_storeys,
           citygml_storeys = n_citygml_storeys,
           parity_errors = v_errors self,
           parity_warnings = v_warnings self\<rparr>))"

section \<open>The written document in closed form\<close>

text \<open>
  The converter builds its document by mutating the tree one element at a time. The
  definitions of this section say in one expression what each step appends and what the
  whole document is. Nothing is assumed about them: the lemmas further down prove that
  \<open>add_storey_information\<close>, \<open>add_building_properties\<close>, \<open>process_building\<close> and the
  loop compute exactly these trees.
\<close>

definition append_children :: "xml list \<Rightarrow> xml \<Rightarrow> xml" where
  "append_children cs e = Element (tag e) (attrib e) (text_of e) (children e @ cs) (tail e)"

definition generic_attribute :: "string \<Rightarrow> string \<Rightarrow> xml" where
  "generic_attribute k v = Element (CORE @ ''genericAttribute'') [(''name'', k), (''value'', v)] None [] None"

definition storey_elements :: "storey_info \<Rightarrow> xml list" where
  "storey_elements storey =
     [Element (GML @ ''name'') [] (Some (''Storey::'' @ storey_name storey)) [] None,
      generic_attribute ''storey_elevation'' (str_elevation (storey_elevation storey))]"

definition property_elements :: "(string \<times> string) list \<Rightarrow> xml list" where
  "property_elements properties =
     map (\<lambda>(k, v). generic_attribute k v) (filter (\<lambda>(k, v). k \<noteq> ''name'') properties)"

definition resolved_name :: "nat \<Rightarrow> entity \<Rightarrow> string" where
  "resolved_name idx building = or_else (Name building) (''Building_'' @ str_nat idx)"

definition serialized_building :: "ifc_file option \<Rightarrow> ifc_file \<Rightarrow> nat \<Rightarrow> entity \<Rightarrow> xml" where
  "serialized_building g ifc_model idx building =
     Element (CORE @ ''Building'') [(GML @ ''id'', ''b-'' @ str_nat idx)] None
       (Element (GML @ ''name'') [] (Some (resolved_name idx building)) [] None
        # concat (map storey_elements (extract_building_storeys ifc_model building))
        @ (case extract_building_properties g building of
             Inl e \<Rightarrow> []
           | Inr properties \<Rightarrow> property_elements properties)) None"

definition serialized_member :: "ifc_file option \<Rightarrow> ifc_file \<Rightarrow> nat \<Rightarrow> entity \<Rightarrow> xml" where
  "serialized_member g ifc_model idx building =
     Element (CORE @ ''cityObjectMember'') [] None [serialized_building g ifc_model idx building] None"

definition bounded_by :: xml where
  "bounded_by = Element (GML @ ''boundedBy'') [] None
                  [Element (GML @ ''Null'') [(''reason'', ''unknown'')] (Some ''unknown'') [] None] None"

definition citygml_document :: "ifc_file option \<Rightarrow> ifc_file \<Rightarrow> xml" where
  "citygml_document g ifc_model =
     Element (CORE @ ''CityModel'') [] None
       (bounded_by # map (\<lambda>(i, building). serialized_member g ifc_model i building)
                       (enumerate 0 (by_type ifc_model ''IfcBuilding''))) None"

text \<open>
  The diagnostics of one file in closed form: the error strings of the buildings whose
  processing raised, in index order; whether a building went through without an error;
  and the warnings of a file without buildings.
\<close>

definition building_errors :: "ifc_file option \<Rightarrow> nat \<Rightarrow> entity list \<Rightarrow> string list" where
  "building_errors g idx buildings =
     concat (map (\<lambda>(i, building). case extract_building_properties g building of
                                      Inl e \<Rightarrow> [building_error_msg i e]
                                    | Inr properties \<Rightarrow> [])
               (enumerate idx buildings))"

definition error_free :: "ifc_file option \<Rightarrow> entity \<Rightarrow> bool" where
  "error_free g building = (case extract_building_properties g building of Inl e \<Rightarrow> False | Inr properties \<Rightarrow> True)"

definition no_building_warnings :: "ifc_file \<Rightarrow> string list" where
  "no_building_warnings ifc_model =
     (if by_type ifc_model ''IfcBuilding'' = []
      then ''No IfcBuilding entities found in IFC file''
           # (if by_type ifc_model ''IfcBuildingStorey'' \<noteq> []
              then [''Found '' @ str_nat (length (by_type ifc_model ''IfcBuildingStorey''))
                    @ '' building storeys without building entity'']
              else [])
      else [])"

section \<open>The two handlers, for any body of the inner \<open>try\<close>\<close>

text \<open>
  What the \<open>except\<close> clauses of \<open>process_ifc_file\<close> do does not depend on what raised.
  \<open>for_buildings_with\<close> and \<open>process_ifc_file_with\<close> are the loop and the method with the
  body of the inner \<open>try\<close> as a parameter: given the opened model, the index, the
  building and the tree, a body returns the tree it leaves and either an exception or
  nothing. The method itself is the instance at \<open>process_building\<close>, as
  \<open>process_ifc_file_is_with\<close> proves below.
\<close>

fun for_buildings_with :: "(nat \<Rightarrow> entity \<Rightarrow> xml \<Rightarrow> xml \<times> (exn + unit)) \<Rightarrow> nat \<Rightarrow> entity list
    \<Rightarrow> converter \<times> xml \<Rightarrow> converter \<times> xml" where
  "for_buildings_with body idx [] st = st"
| "for_buildings_with body idx (building # rest) (self, citymodel) =
     (case body idx building citymodel of
        (citymodel, Inr u) \<Rightarrow>
          for_buildings_with body (Suc idx) rest
            (self\<lparr>self_buildings_processed := self_buildings_processed self + 1\<rparr>, citymodel)
      | (citymodel, Inl e) \<Rightarrow>
          for_buildings_with body (Suc idx) rest
            (self\<lparr>self_errors := self_errors self
                     @ [''Error processing building '' @ str_nat idx @ '': '' @ str_exn e]\<rparr>, citymodel))"

definition process_ifc_file_with :: "(ifc_file \<Rightarrow> nat \<Rightarrow> entity \<Rightarrow> xml \<Rightarrow> xml \<times> (exn + unit))
    \<Rightarrow> converter \<Rightarrow> filesystem \<Rightarrow> path \<Rightarrow> string \<Rightarrow> converter \<times> filesystem \<times> ConversionResult" where
  "process_ifc_file_with body self fs ifc_path output_dir =
     (let self = self\<lparr>self_buildings_processed := 0, self_errors := [], self_warnings := []\<rparr>
      in case ifcopenshell_open fs ifc_path of
           Inl e \<Rightarrow> file_failure self fs ifc_path e
         | Inr ifc_model \<Rightarrow>
             (let citymodel = create_citymodel_root;
                  buildings = by_type ifc_model ''IfcBuilding'';
                  self = (if buildings = []
                          then (let self = self\<lparr>self_warnings := self_warnings self
                                              @ [''No IfcBuilding entities found in IFC file'']\<rparr>;
                                    storeys = by_type ifc_model ''IfcBuildingStorey''
                                in if storeys \<noteq> []
                                   then self\<lparr>self_warnings := self_warnings self
                                          @ [''Found '' @ str_nat (length storeys)
                                             @ '' building storeys without building entity'']\<rparr>
                                   else self)
                          else self);
                  (self, citymodel) = for_buildings_with (body ifc_model) 0 buildings (self, citymodel);
                  output_file = output_path ifc_path output_dir
              in case write_citygml fs citymodel output_file of
                   Inl e \<Rightarrow> file_failure self fs ifc_path e
                 | Inr fs \<Rightarrow>
                     (self, fs,
                      \<lparr>success = (length (self_errors self) = 0),
                       input_file = str_path ifc_path,
                       output_file = str_path output_file,
                       buildings_processed = self_buildings_processed self,
                       errors = self_errors self,
                       warnings = self_warnings self\<rparr>)))"

text \<open>
  The components of what \<open>process_ifc_file\<close> returns, and the results \<open>main\<close>'s loop
  sees, file after file, each conversion starting from the converter and the files the
  one before it left.
\<close>

definition conversion_result :: "ifc_file option \<Rightarrow> converter \<Rightarrow> filesystem \<Rightarrow> path \<Rightarrow> string \<Rightarrow> ConversionResult" where
  "conversion_result g self fs ifc_path output_dir = snd (snd (process_ifc_file g self fs ifc_path output_dir))"

definition conversion_files :: "ifc_file option \<Rightarrow> converter \<Rightarrow> filesystem \<Rightarrow> path \<Rightarrow> string \<Rightarrow> filesystem" where
  "conversion_files g self fs ifc_path output_dir = fst (snd (process_ifc_file g self fs ifc_path output_dir))"

fun conversion_results :: "ifc_file option \<Rightarrow> string \<Rightarrow> path list \<Rightarrow> converter \<Rightarrow> filesystem
    \<Rightarrow> ConversionResult list" where
  "conversion_results g output_dir [] converter fs = []"
| "conversion_results g output_dir (ifc_path # rest) converter fs =
     (case process_ifc_file g converter fs ifc_path output_dir of
        (converter, fs, result) \<Rightarrow> result # conversion_results g output_dir rest converter fs)"

text \<open>
  What the validator's storey query matches, and the text its \<open>float\<close> call reads: the
  \<open>value\<close> of the first \<open>storey_elevation\<close> attribute of the document (\<open>"0"\<close> when the
  attribute has no value). \<open>elevation_readable\<close> holds when there is no such attribute or
  \<open>float\<close> accepts that text.
\<close>

definition leaf_with_tag :: "string set \<Rightarrow> xml \<Rightarrow> bool" where
  "leaf_with_tag ts e = (children e = [] \<and> tag e \<in> ts)"

definition storey_name_elements :: "xml \<Rightarrow> xml list" where
  "storey_name_elements doc =
     filter (\<lambda>e. text_starts_with e ''Storey::'') (xpath_all doc (GML @ ''name''))"

definition first_elevation_text :: "xml \<Rightarrow> string option" where
  "first_elevation_text doc =
     (case filter (\<lambda>a. map_of (attrib a) ''name'' = Some ''storey_elevation'')
             (xpath_all doc (CORE @ ''genericAttribute'')) of
        [] \<Rightarrow> None
      | a # _ \<Rightarrow> Some (case map_of (attrib a) ''value'' of None \<Rightarrow> ''0'' | Some v \<Rightarrow> v))"

definition elevation_readable :: "xml \<Rightarrow> bool" where
  "elevation_readable doc = (case first_elevation_text doc of None \<Rightarrow> True | Some s \<Rightarrow> float_ok s)"

text \<open>
  The source-side storey count as the specification words it, "Storey entities aggregated
  under any building": the storeys that some aggregation relationship relates to an
  \<open>IfcBuilding\<close>. It is not part of the program; it is what \<open>count_ifc_storeys\<close> is
  compared with.
\<close>

definition spec_storeys_under_buildings :: "ifc_file \<Rightarrow> entity list" where
  "spec_storeys_under_buildings ifc_model =
     filter (\<lambda>s. is_a s ''IfcBuildingStorey''
                 \<and> list_ex (\<lambda>rel. is_a rel ''IfcRelAggregates''
                                   \<and> step_id s \<in> set (RelatedObjects rel)
                                   \<and> (case Option.bind (RelatingObject rel) (by_id ifc_model) of
                                         None \<Rightarrow> False
                                       | Some b \<Rightarrow> is_a b ''IfcBuilding''))
                      ifc_model)
       ifc_model"

section \<open>Example files\<close>

text \<open>
  \<open>two_towers\<close>: buildings \<open>#10\<close> named \<open>Tower A\<close> and \<open>#11\<close> with an empty name, and
  the storey \<open>#20\<close> (\<open>L1\<close>, elevation 3.5) aggregated under \<open>#10\<close> by \<open>#30\<close>.
  \<open>storeys_only\<close>: the storey alone, with no building and no relationship.
  \<open>unset_elevation\<close>: one building with one storey whose \<open>Elevation\<close> is unset.
  \<open>mixed_content\<close>: a document, not one the converter writes, whose name element has
  a child element followed by the text \<open>Storey::L1\<close>.
\<close>

definition blank_entity :: "nat \<Rightarrow> string \<Rightarrow> entity" where
  "blank_entity i c = \<lparr>step_id = i, ifc_class = c, Name = None, Description = None,
     GlobalId = None, ObjectType = None, Elevation = None, RelatingObject = None,
     RelatedObjects = [], RelatingClassification = None\<rparr>"

definition two_towers :: ifc_file where
  "two_towers =
     [(blank_entity 10 ''IfcBuilding'')\<lparr>Name := Some ''Tower A'', GlobalId := Some ''G10''\<rparr>,
      (blank_entity 11 ''IfcBuilding'')\<lparr>Name := Some []\<rparr>,
      (blank_entity 20 ''IfcBuildingStorey'')\<lparr>Name := Some ''L1'', Elevation := Some ''3.5''\<rparr>,
      (blank_entity 30 ''IfcRelAggregates'')\<lparr>RelatingObject := Some 10, RelatedObjects := [20]\<rparr>]"

definition towers_fs :: filesystem where
  "towers_fs = \<lparr>dirs = [''in'', ''out''], files = [(Path ''in'' ''a.ifc'', IfcFile two_towers)]\<rparr>"

definition storeys_only :: ifc_file where
  "storeys_only = [(blank_entity 20 ''IfcBuildingStorey'')\<lparr>Name := Some ''L1'', Elevation := Some ''3.5''\<rparr>]"

definition storeys_only_fs :: filesystem where
  "storeys_only_fs = \<lparr>dirs = [''in'', ''out''], files = [(Path ''in'' ''s.ifc'', IfcFile storeys_only)]\<rparr>"

definition two_files_fs :: filesystem where
  "two_files_fs = \<lparr>dirs = [''in'', ''out''],
                    files = [(Path ''in'' ''a.ifc'', IfcFile two_towers),
                             (Path ''in'' ''s.ifc'', IfcFile storeys_only)]\<rparr>"

definition unset_elevation :: ifc_file where
  "unset_elevation =
     [(blank_entity 10 ''IfcBuilding'')\<lparr>Name := Some ''Hall''\<rparr>,
      (blank_entity 20 ''IfcBuildingStorey'')\<lparr>Name := Some ''L1''\<rparr>,
      (blank_entity 30 ''IfcRelAggregates'')\<lparr>RelatingObject := Some 10, RelatedObjects := [20]\<rparr>]"

definition mixed_content :: xml where
  "mixed_content =
     Element (CORE @ ''CityModel'') [] None
       [Element (GML @ ''name'') [] None
          [Element (GML @ ''description'') [] None [] (Some ''Storey::L1'')] None] None"

definition raising_body :: "exn \<Rightarrow> ifc_file \<Rightarrow> nat \<Rightarrow> entity \<Rightarrow> xml \<Rightarrow> xml \<times> (exn + unit)" where
  "raising_body e ifc_model idx building citymodel =
     (if idx = 0 then (citymodel, Inl e) else (citymodel, Inr ()))"

section \<open>Elements and handles\<close>

text \<open>
  Reading and writing through a handle, and the one fact every step of the serializer
  rests on: creating a child under a handle and then mutating that child is the same as
  appending the mutated child.
\<close>

lemma element_at_modify_at:
  "element_at h root = Some e \<Longrightarrow> element_at h (modify_at h f root) = Some (f e)"
  by (induction h arbitrary: root) (auto split: if_splits)

lemma modify_at_modify_at:
  "modify_at h f (modify_at h g root) = modify_at h (f \<circ> g) root"
  by (induction h arbitrary: root) auto

lemma modify_at_new_child:
  "element_at h root = Some e \<Longrightarrow>
   modify_at (h @ [length (children e)]) f (modify_at h (append_child c) root)
     = modify_at h (append_child (f c)) root"
proof (induction h arbitrary: root)
  case Nil
  then show ?case by (simp add: append_child_def)
next
  case (Cons i h)
  then show ?case by (auto split: if_splits)
qed

lemma SubElement_at:
  "element_at h root = Some e \<Longrightarrow>
   SubElement root h t a = (modify_at h (append_child (Element t a None [] None)) root, h @ [length (children e)])"
  by (simp add: SubElement_def)

lemma add_generic_attribute_at:
  assumes "element_at h root = Some e"
  shows "add_generic_attribute root h k v
         = modify_at h (append_child (Element (CORE @ ''genericAttribute'') [(''name'', k), (''value'', v)] None [] None)) root"
  using assms
  by (simp add: add_generic_attribute_def SubElement_at modify_at_new_child set_attr_def)

lemma append_children_Nil: "modify_at h (append_children []) root = root"
  by (induction h arbitrary: root) (auto simp: append_children_def list_update_same_conv)

lemma append_children_append:
  "append_children ds \<circ> append_children cs = append_children (cs @ ds)"
  by (auto simp: append_children_def)

lemma append_child_children: "append_child c = append_children [c]"
  by (auto simp: append_child_def append_children_def)

lemma add_generic_attribute_closed:
  "element_at h root = Some e \<Longrightarrow>
   add_generic_attribute root h k v = modify_at h (append_children [generic_attribute k v]) root"
  by (simp add: add_generic_attribute_at generic_attribute_def append_child_children)

section \<open>The serializer computes the closed forms\<close>

lemma add_storey_information_closed:
  "element_at h root = Some e \<Longrightarrow>
   add_storey_information root h storeys
     = modify_at h (append_children (concat (map storey_elements storeys))) root"
proof (induction storeys arbitrary: root e)
  case Nil
  then show ?case by (simp add: add_storey_information_def append_children_Nil)
next
  case (Cons s storeys)
  let ?nm = "Element (GML @ ''name'') [] (Some (''Storey::'' @ storey_name s)) [] None"
  let ?r1 = "modify_at h (append_children [?nm]) root"
  let ?r2 = "modify_at h (append_children (storey_elements s)) root"
  have r1: "(let (root', storey_nm) = SubElement root h (GML @ ''name'') []
             in modify_at storey_nm (set_text (''Storey::'' @ storey_name s)) root') = ?r1"
    using Cons.prems
    by (simp add: SubElement_at modify_at_new_child set_text_def)
       (simp add: append_child_children)
  have e1: "element_at h ?r1 = Some (append_children [?nm] e)"
    using Cons.prems by (rule element_at_modify_at)
  have "add_generic_attribute ?r1 h ''storey_elevation'' (str_elevation (storey_elevation s)) = ?r2"
    using e1
    by (simp add: add_generic_attribute_closed modify_at_modify_at append_children_append
          storey_elements_def)
  with r1 have step: "(let (root', storey_nm) = SubElement root h (GML @ ''name'') [];
                   root' = modify_at storey_nm (set_text (''Storey::'' @ storey_name s)) root'
               in add_generic_attribute root' h ''storey_elevation'' (str_elevation (storey_elevation s)))
              = ?r2"
    by (simp add: Let_def split_beta)
  have e2: "element_at h ?r2 = Some (append_children (storey_elements s) e)"
    using Cons.prems by (rule element_at_modify_at)
  have "add_storey_information root h (s # storeys) = add_storey_information ?r2 h storeys"
    using step by (simp add: add_storey_information_def)
  also have "\<dots> = modify_at h (append_children (concat (map storey_elements storeys))) ?r2"
    using e2 by (rule Cons.IH)
  finally show ?case
    by (simp add: modify_at_modify_at append_children_append)
qed

lemma add_building_properties_closed:
  "element_at h root = Some e \<Longrightarrow>
   add_building_properties root h properties
     = modify_at h (append_children (property_elements properties)) root"
proof (induction properties arbitrary: root e)
  case Nil
  then show ?case by (simp add: add_building_properties_def property_elements_def append_children_Nil)
next
  case (Cons kv properties)
  obtain k v where kv: "kv = (k, v)" by (cases kv)
  show ?case
  proof (cases "k = ''name''")
    case True
    have "add_building_properties root h (kv # properties) = add_building_properties root h properties"
      using True kv by (simp add: add_building_properties_def)
    also have "\<dots> = modify_at h (append_children (property_elements properties)) root"
      using Cons.prems by (rule Cons.IH)
    finally show ?thesis using True kv by (simp add: property_elements_def)
  next
    case False
    let ?r1 = "modify_at h (append_children [generic_attribute k v]) root"
    have e1: "element_at h ?r1 = Some (append_children [generic_attribute k v] e)"
      using Cons.prems by (rule element_at_modify_at)
    have "add_building_properties root h (kv # properties) = add_building_properties ?r1 h properties"
      using False kv Cons.prems by (simp add: add_building_properties_def add_generic_attribute_closed)
    also have "\<dots> = modify_at h (append_children (property_elements properties)) ?r1"
      using e1 by (rule Cons.IH)
    finally show ?thesis using False kv
      by (simp add: modify_at_modify_at append_children_append property_elements_def)
  qed
qed

lemma add_building_closed:
  "add_building (Element t a x cs t_tail) nm gml_id
     = (Element t a x (cs @ [Element (CORE @ ''cityObjectMember'') [] None
                               [Element (CORE @ ''Building'') [(GML @ ''id'', gml_id)] None
                                  [Element (GML @ ''name'') [] (Some nm) [] None] None] None]) t_tail,
        [length cs, 0])"
  by (simp add: add_building_def SubElement_def append_child_def set_text_def nth_append)

lemma or_else_or_else: "or_else (Some (or_else x d)) d = or_else x d"
  by (auto simp: or_else_def split: option.splits)

lemma resolved_name_twice:
  "or_else (Some (or_else (Name building) (''Building_'' @ str_nat idx))) (''Building_'' @ str_nat idx)
     = resolved_name idx building"
  by (simp add: or_else_or_else resolved_name_def)

lemma modify_building_closed:
  "modify_at [length cs, 0] f (Element t a x (cs @ [Element mt ma mx [b] mt_tail]) t_tail)
     = Element t a x (cs @ [Element mt ma mx [f b] mt_tail]) t_tail"
  by (simp add: nth_append)

lemma element_at_building:
  "element_at [length cs, 0] (Element t a x (cs @ [Element mt ma mx [b] mt_tail]) t_tail) = Some b"
  by (simp add: nth_append)

lemma process_building_closed:
  "process_building g ifc_model idx building (Element t a x cs t_tail)
     = (Element t a x (cs @ [serialized_member g ifc_model idx building]) t_tail,
        (case extract_building_properties g building of Inl e \<Rightarrow> Inl e | Inr properties \<Rightarrow> Inr ()))"
proof -
  let ?B0 = "Element (CORE @ ''Building'') [(GML @ ''id'', ''b-'' @ str_nat idx)] None
               [Element (GML @ ''name'') [] (Some (resolved_name idx building)) [] None] None"
  let ?M = "\<lambda>b. Element (CORE @ ''cityObjectMember'') [] None [b] None"
  let ?h = "[length cs, 0]"
  let ?root = "\<lambda>b. Element t a x (cs @ [?M b]) t_tail"
  let ?storeys = "extract_building_storeys ifc_model building"
  let ?S = "append_children (concat (map storey_elements ?storeys))"
  have ab: "add_building (Element t a x cs t_tail) (resolved_name idx building) (''b-'' @ str_nat idx)
              = (?root ?B0, ?h)"
    by (rule add_building_closed)
  have at0: "element_at ?h (?root ?B0) = Some ?B0" by (rule element_at_building)
  have st: "(if ?storeys \<noteq> [] then add_storey_information (?root ?B0) ?h ?storeys else ?root ?B0)
              = ?root (?S ?B0)"
  proof (cases "?storeys = []")
    case True
    then show ?thesis by (simp add: append_children_def)
  next
    case False
    then show ?thesis
      using add_storey_information_closed [OF at0, of ?storeys]
      by (simp only: if_True modify_building_closed simp_thms)
  qed
  have at1: "element_at ?h (?root (?S ?B0)) = Some (?S ?B0)" by (rule element_at_building)
  have pb: "process_building g ifc_model idx building (Element t a x cs t_tail)
            = (case extract_building_properties g building of
                 Inl e \<Rightarrow> (?root (?S ?B0), Inl e)
               | Inr properties \<Rightarrow> (add_building_properties (?root (?S ?B0)) ?h properties, Inr ()))"
    unfolding process_building_def resolved_name_twice
    by (simp only: ab Let_def prod.case st)
  show ?thesis
  proof (cases "extract_building_properties g building")
    case (Inl e)
    then show ?thesis
      unfolding pb
      by (simp add: serialized_member_def serialized_building_def append_children_def)
  next
    case (Inr properties)
    have "add_building_properties (?root (?S ?B0)) ?h properties
            = ?root (append_children (property_elements properties) (?S ?B0))"
      using add_building_properties_closed [OF at1, of properties]
      by (simp only: modify_building_closed)
    then show ?thesis
      unfolding pb using Inr
      by (simp add: serialized_member_def serialized_building_def append_children_def)
  qed
qed

lemma snd_process_building:
  "snd (process_building g ifc_model idx building citymodel)
     = (case extract_building_properties g building of Inl e \<Rightarrow> Inl e | Inr properties \<Rightarrow> Inr ())"
  by (cases citymodel) (simp add: process_building_closed)

lemma create_citymodel_root_closed:
  "create_citymodel_root = Element (CORE @ ''CityModel'') [] None [bounded_by] None"
  by (simp add: create_citymodel_root_def SubElement_def append_child_def set_text_def bounded_by_def)

lemma for_buildings_closed:
  "for_buildings g ifc_model idx buildings (self, Element t a x cs t_tail)
     = (self\<lparr>self_buildings_processed := self_buildings_processed self + length (filter (error_free g) buildings),
              self_errors := self_errors self @ building_errors g idx buildings\<rparr>,
        Element t a x (cs @ map (\<lambda>(i, building). serialized_member g ifc_model i building)
                              (enumerate idx buildings)) t_tail)"
proof (induction buildings arbitrary: idx self cs)
  case Nil
  then show ?case by (simp add: building_errors_def)
next
  case (Cons b buildings)
  show ?case
  proof (cases "extract_building_properties g b")
    case (Inl e)
    then show ?thesis
      using Cons.IH [of "Suc idx" "self\<lparr>self_errors := self_errors self @ [building_error_msg idx e]\<rparr>"
                        "cs @ [serialized_member g ifc_model idx b]"]
      by (simp add: process_building_closed building_errors_def error_free_def)
  next
    case (Inr properties)
    then show ?thesis
      using Cons.IH [of "Suc idx" "self\<lparr>self_buildings_processed := self_buildings_processed self + 1\<rparr>"
                        "cs @ [serialized_member g ifc_model idx b]"]
      by (simp add: process_building_closed building_errors_def error_free_def)
  qed
qed

lemma errors_or_processed:
  "length (building_errors g idx buildings) + length (filter (error_free g) buildings)
     = length buildings"
  by (induction buildings arbitrary: idx)
     (auto simp: building_errors_def error_free_def split: sum.splits)

section \<open>The loop for any body\<close>

text \<open>
  The loop accounts for every building, as processed or by one more error string, and it
  records an exception under the index of the building that raised it.
\<close>

lemma for_buildings_is_with:
  "for_buildings g ifc_model idx buildings st = for_buildings_with (process_building g ifc_model) idx buildings st"
proof (induction buildings arbitrary: idx st)
  case Nil
  then show ?case by simp
next
  case (Cons b buildings)
  obtain self citymodel where st: "st = (self, citymodel)" by (cases st)
  show ?case
    unfolding st
    by (simp add: Cons.IH building_error_msg_def split: prod.splits sum.splits)
qed

lemma process_ifc_file_is_with:
  "process_ifc_file g self fs ifc_path output_dir
     = process_ifc_file_with (process_building g) self fs ifc_path output_dir"
  unfolding process_ifc_file_def process_ifc_file_with_def for_buildings_is_with ..

lemma for_buildings_with_accounts:
  "\<exists>new. self_errors (fst (for_buildings_with body idx buildings (self, citymodel))) = self_errors self @ new
        \<and> self_buildings_processed (fst (for_buildings_with body idx buildings (self, citymodel))) + length new
            = self_buildings_processed self + length buildings
        \<and> self_warnings (fst (for_buildings_with body idx buildings (self, citymodel))) = self_warnings self"
proof (induction buildings arbitrary: idx self citymodel)
  case Nil
  then show ?case by simp
next
  case (Cons b buildings)
  obtain cm' r where bd: "body idx b citymodel = (cm', r)" by (cases "body idx b citymodel")
  show ?case
  proof (cases r)
    case (Inl e)
    let ?self = "self\<lparr>self_errors := self_errors self
                     @ [''Error processing building '' @ str_nat idx @ '': '' @ str_exn e]\<rparr>"
    obtain new where "self_errors (fst (for_buildings_with body (Suc idx) buildings (?self, cm'))) = self_errors ?self @ new"
      and "self_buildings_processed (fst (for_buildings_with body (Suc idx) buildings (?self, cm'))) + length new
            = self_buildings_processed ?self + length buildings"
      and "self_warnings (fst (for_buildings_with body (Suc idx) buildings (?self, cm'))) = self_warnings ?self"
      using Cons.IH [of "Suc idx" ?self cm'] by blast
    then show ?thesis
      using bd Inl
      by (intro exI [of _ "(''Error processing building '' @ str_nat idx @ '': '' @ str_exn e) # new"]) simp
  next
    case (Inr u)
    let ?self = "self\<lparr>self_buildings_processed := self_buildings_processed self + 1\<rparr>"
    obtain new where "self_errors (fst (for_buildings_with body (Suc idx) buildings (?self, cm'))) = self_errors ?self @ new"
      and "self_buildings_processed (fst (for_buildings_with body (Suc idx) buildings (?self, cm'))) + length new
            = self_buildings_processed ?self + length buildings"
      and "self_warnings (fst (for_buildings_with body (Suc idx) buildings (?self, cm'))) = self_warnings ?self"
      using Cons.IH [of "Suc idx" ?self cm'] by blast
    then show ?thesis
      using bd Inr by (intro exI [of _ new]) simp
  qed
qed

lemma for_buildings_with_records:
  assumes "k < length buildings"
      and "\<forall>citymodel. snd (body (idx + k) (buildings ! k) citymodel) = Inl e"
  shows "(''Error processing building '' @ str_nat (idx + k) @ '': '' @ str_exn e)
           \<in> set (self_errors (fst (for_buildings_with body idx buildings (self, citymodel))))"
  using assms
proof (induction buildings arbitrary: idx k self citymodel)
  case Nil
  then show ?case by simp
next
  case (Cons b buildings)
  obtain cm' r where bd: "body idx b citymodel = (cm', r)" by (cases "body idx b citymodel")
  show ?case
  proof (cases k)
    case 0
    then have r: "r = Inl e" using Cons.prems(2) bd by (metis add.right_neutral nth_Cons_0 snd_conv)
    let ?self = "self\<lparr>self_errors := self_errors self
                     @ [''Error processing building '' @ str_nat idx @ '': '' @ str_exn e]\<rparr>"
    obtain new where "self_errors (fst (for_buildings_with body (Suc idx) buildings (?self, cm'))) = self_errors ?self @ new"
      using for_buildings_with_accounts [of body "Suc idx" buildings ?self cm'] by blast
    then show ?thesis using bd r 0 by simp
  next
    case (Suc j)
    have j: "j < length buildings" using Cons.prems(1) Suc by simp
    have raises: "\<forall>citymodel. snd (body (Suc idx + j) (buildings ! j) citymodel) = Inl e"
      using Cons.prems(2) Suc by simp
    show ?thesis
    proof (cases r)
      case (Inl e')
      then show ?thesis
        using bd Suc Cons.IH [OF j raises] by simp
    next
      case (Inr u)
      then show ?thesis
        using bd Suc Cons.IH [OF j raises] by simp
    qed
  qed
qed

lemma process_ifc_file_with_written:
  assumes "ifcopenshell_open fs ifc_path = Inr ifc_model" and "output_dir \<in> set (dirs fs)"
  shows "process_ifc_file_with body self fs ifc_path output_dir
         = (let done = for_buildings_with (body ifc_model) 0 (by_type ifc_model ''IfcBuilding'')
                         (\<lparr>self_buildings_processed = 0, self_errors = [],
                           self_warnings = no_building_warnings ifc_model\<rparr>, create_citymodel_root)
            in (fst done,
                fs\<lparr>files := AList.update (output_path ifc_path output_dir) (XmlFile (snd done)) (files fs)\<rparr>,
                \<lparr>success = (self_errors (fst done) = []),
                 input_file = str_path ifc_path,
                 output_file = str_path (output_path ifc_path output_dir),
                 buildings_processed = self_buildings_processed (fst done),
                 errors = self_errors (fst done),
                 warnings = self_warnings (fst done)\<rparr>))"
  using assms
  by (cases self)
     (simp add: process_ifc_file_with_def write_citygml_def output_path_def
        no_building_warnings_def Let_def split_beta)

section \<open>\<open>process_ifc_file\<close>, case by case\<close>

text \<open>
  The three ways a call ends: the source cannot be opened; the document is written; the
  document cannot be written. Then what a call does to the files, and what it reads of
  them.
\<close>

lemma process_ifc_file_unreadable:
  assumes "ifcopenshell_open fs ifc_path = Inl e"
  shows "process_ifc_file g self fs ifc_path output_dir
         = (\<lparr>self_buildings_processed = 0,
              self_errors = [''Error processing IFC file '' @ str_path ifc_path @ '': '' @ str_exn e],
              self_warnings = []\<rparr>, fs,
            \<lparr>success = False, input_file = str_path ifc_path, output_file = [],
             buildings_processed = 0,
             errors = [''Error processing IFC file '' @ str_path ifc_path @ '': '' @ str_exn e],
             warnings = []\<rparr>)"
  using assms by (cases self) (simp add: process_ifc_file_def file_failure_def Let_def)

lemma process_ifc_file_written:
  assumes "ifcopenshell_open fs ifc_path = Inr ifc_model" and "output_dir \<in> set (dirs fs)"
  shows "process_ifc_file g self fs ifc_path output_dir
         = (\<lparr>self_buildings_processed = length (filter (error_free g) (by_type ifc_model ''IfcBuilding'')),
              self_errors = building_errors g 0 (by_type ifc_model ''IfcBuilding''),
              self_warnings = no_building_warnings ifc_model\<rparr>,
            fs\<lparr>files := AList.update (output_path ifc_path output_dir)
                            (XmlFile (citygml_document g ifc_model)) (files fs)\<rparr>,
            \<lparr>success = (building_errors g 0 (by_type ifc_model ''IfcBuilding'') = []),
             input_file = str_path ifc_path,
             output_file = str_path (output_path ifc_path output_dir),
             buildings_processed = length (filter (error_free g) (by_type ifc_model ''IfcBuilding'')),
             errors = building_errors g 0 (by_type ifc_model ''IfcBuilding''),
             warnings = no_building_warnings ifc_model\<rparr>)"
  using assms
  by (cases self)
     (simp add: process_ifc_file_def create_citymodel_root_closed for_buildings_closed
        write_citygml_def output_path_def citygml_document_def no_building_warnings_def Let_def)

lemma process_ifc_file_unwritable:
  assumes "ifcopenshell_open fs ifc_path = Inr ifc_model" and "output_dir \<notin> set (dirs fs)"
  shows "process_ifc_file g self fs ifc_path output_dir
         = (\<lparr>self_buildings_processed = length (filter (error_free g) (by_type ifc_model ''IfcBuilding'')),
              self_errors = building_errors g 0 (by_type ifc_model ''IfcBuilding'')
                 @ [''Error processing IFC file '' @ str_path ifc_path @ '': ''
                    @ ''Error writing file: '' @ str_path (output_path ifc_path output_dir)],
              self_warnings = no_building_warnings ifc_model\<rparr>,
            fs,
            \<lparr>success = False,
             input_file = str_path ifc_path,
             output_file = [],
             buildings_processed = 0,
             errors = building_errors g 0 (by_type ifc_model ''IfcBuilding'')
                 @ [''Error processing IFC file '' @ str_path ifc_path @ '': ''
                    @ ''Error writing file: '' @ str_path (output_path ifc_path output_dir)],
             warnings = no_building_warnings ifc_model\<rparr>)"
  using assms
  by (cases self)
     (simp add: process_ifc_file_def create_citymodel_root_closed for_buildings_closed
        write_citygml_def output_path_def file_failure_def no_building_warnings_def Let_def)

lemma written_document:
  assumes "ifcopenshell_open fs ifc_path = Inr ifc_model" and "output_dir \<in> set (dirs fs)"
  shows "etree_parse (conversion_files g self fs ifc_path output_dir) (output_path ifc_path output_dir)
           = Inr (citygml_document g ifc_model)"
  by (simp add: conversion_files_def process_ifc_file_written [OF assms] etree_parse_def
        AList.update_conv')

lemma process_ifc_file_resets:
  "process_ifc_file g self fs ifc_path output_dir = process_ifc_file g init_converter fs ifc_path output_dir"
  by (cases self) (simp add: process_ifc_file_def init_converter_def)

lemma conversion_files_dirs:
  "dirs (conversion_files g self fs p d) = dirs fs"
proof (cases "ifcopenshell_open fs p")
  case (Inl e)
  then show ?thesis by (simp add: conversion_files_def process_ifc_file_unreadable)
next
  case (Inr m)
  then show ?thesis
    by (cases "d \<in> set (dirs fs)")
       (simp_all add: conversion_files_def process_ifc_file_written process_ifc_file_unwritable)
qed

lemma conversion_files_other:
  assumes "q \<noteq> output_path p d"
  shows "map_of (files (conversion_files g self fs p d)) q = map_of (files fs) q"
proof (cases "ifcopenshell_open fs p")
  case (Inl e)
  then show ?thesis by (simp add: conversion_files_def process_ifc_file_unreadable)
next
  case (Inr m)
  then show ?thesis
    using assms
    by (cases "d \<in> set (dirs fs)")
       (simp_all add: conversion_files_def process_ifc_file_written process_ifc_file_unwritable
          AList.update_conv')
qed

lemma conversion_result_reads:
  assumes "map_of (files fs1) p = map_of (files fs2) p" and "dirs fs1 = dirs fs2"
  shows "conversion_result g s1 fs1 p d = conversion_result g s2 fs2 p d"
proof -
  have op: "ifcopenshell_open fs1 p = ifcopenshell_open fs2 p"
    using assms(1) by (simp add: ifcopenshell_open_def)
  show ?thesis
  proof (cases "ifcopenshell_open fs2 p")
    case (Inl e)
    then show ?thesis using op by (simp add: conversion_result_def process_ifc_file_unreadable)
  next
    case (Inr m)
    then have op1: "ifcopenshell_open fs1 p = Inr m" using op by simp
    show ?thesis
    proof (cases "d \<in> set (dirs fs2)")
      case True
      then have "d \<in> set (dirs fs1)" using assms(2) by simp
      then show ?thesis
        using True by (simp add: conversion_result_def process_ifc_file_written [OF Inr]
                         process_ifc_file_written [OF op1])
    next
      case False
      then have "d \<notin> set (dirs fs1)" using assms(2) by simp
      then show ?thesis
        using False by (simp add: conversion_result_def process_ifc_file_unwritable [OF Inr]
                          process_ifc_file_unwritable [OF op1])
    qed
  qed
qed

section \<open>The module as written: \<open>ifc_model\<close> is unbound\<close>

lemma extract_unbound:
  "extract_building_properties None building = Inl (NameError ''ifc_model'')"
  by (simp add: extract_building_properties_def)

lemma building_errors_unbound:
  "building_errors None idx buildings
     = map (\<lambda>i. building_error_msg i (NameError ''ifc_model'')) [idx..<idx + length buildings]"
proof (induction buildings arbitrary: idx)
  case Nil
  then show ?case by (simp add: building_errors_def)
next
  case (Cons b buildings)
  have "building_errors None idx (b # buildings)
          = building_error_msg idx (NameError ''ifc_model'') # building_errors None (Suc idx) buildings"
    by (simp add: building_errors_def extract_unbound)
  moreover have "[idx..<idx + length (b # buildings)] = idx # [Suc idx..<Suc idx + length buildings]"
    by (simp add: upt_conv_Cons del: upt_Suc)
  ultimately show ?case
    using Cons.IH [of "Suc idx"] by (simp del: upt_Suc)
qed

lemma error_free_unbound: "filter (error_free None) buildings = []"
  by (induction buildings) (simp_all add: error_free_def extract_unbound)

section \<open>The validator's queries on a written document\<close>

lemma xpath_all_Element:
  "xpath_all (Element t a x cs t_tail) T
     = (if t = T then [Element t a x cs t_tail] else []) @ concat (map (\<lambda>c. xpath_all c T) cs)"
  by (simp add: xpath_all_def filter_concat comp_def)

lemma xpath_below_Element:
  "xpath_below (Element t a x cs t_tail) T = concat (map (\<lambda>c. xpath_all c T) cs)"
  by (simp add: xpath_below_def xpath_all_def filter_concat comp_def)

lemma xpath_all_bounded_by_Building: "xpath_all bounded_by (CORE @ ''Building'') = []"
  by (simp add: bounded_by_def xpath_all_Element CORE_def GML_def CITYGML_NS_def GML_NS_def)

lemma xpath_all_empty_document:
  "xpath_all (Element (CORE @ ''CityModel'') [] None [bounded_by] None) (CORE @ ''Building'') = []"
  by (simp add: xpath_all_Element xpath_all_bounded_by_Building)

lemma tags_distinct:
  "GML @ ''name'' \<noteq> CORE @ ''Building''"
  "CORE @ ''genericAttribute'' \<noteq> CORE @ ''Building''"
  "CORE @ ''cityObjectMember'' \<noteq> CORE @ ''Building''"
  "CORE @ ''CityModel'' \<noteq> CORE @ ''Building''"
  "CORE @ ''genericAttribute'' \<noteq> GML @ ''name''"
  "CORE @ ''Building'' \<noteq> GML @ ''name''"
  "CORE @ ''cityObjectMember'' \<noteq> GML @ ''name''"
  "CORE @ ''CityModel'' \<noteq> GML @ ''name''"
  by (simp_all add: CORE_def GML_def CITYGML_NS_def GML_NS_def)

lemma xpath_all_leaves:
  assumes "list_all (leaf_with_tag ts) cs" and "T \<notin> ts"
  shows "concat (map (\<lambda>c. xpath_all c T) cs) = []"
  using assms
proof (induction cs)
  case Nil
  then show ?case by simp
next
  case (Cons c cs)
  obtain t a x ks w where c: "c = Element t a x ks w" by (cases c)
  with Cons show ?case by (auto simp: leaf_with_tag_def xpath_all_Element)
qed

lemma storey_elements_leaves:
  "list_all (leaf_with_tag {GML @ ''name'', CORE @ ''genericAttribute''})
     (concat (map storey_elements storeys))"
  by (induction storeys) (simp_all add: storey_elements_def generic_attribute_def leaf_with_tag_def)

lemma property_elements_leaves':
  "list_all (leaf_with_tag {GML @ ''name'', CORE @ ''genericAttribute''}) (property_elements properties)"
  by (induction properties)
     (auto simp: property_elements_def generic_attribute_def leaf_with_tag_def)

lemma building_children_leaves:
  "list_all (leaf_with_tag {GML @ ''name'', CORE @ ''genericAttribute''})
     (children (serialized_building g ifc_model idx building))"
  by (simp add: serialized_building_def storey_elements_leaves property_elements_leaves'
        leaf_with_tag_def split: sum.splits)

lemma xpath_all_building_element:
  "xpath_all (serialized_building g ifc_model idx building) (CORE @ ''Building'')
     = [serialized_building g ifc_model idx building]"
proof -
  obtain cs where be: "serialized_building g ifc_model idx building
      = Element (CORE @ ''Building'') [(GML @ ''id'', ''b-'' @ str_nat idx)] None cs None"
    by (simp add: serialized_building_def)
  have "list_all (leaf_with_tag {GML @ ''name'', CORE @ ''genericAttribute''}) cs"
    using building_children_leaves [of g ifc_model idx building] by (simp add: be)
  then have "concat (map (\<lambda>c. xpath_all c (CORE @ ''Building'')) cs) = []"
    by (rule xpath_all_leaves) (simp add: tags_distinct [symmetric])
  then show ?thesis by (simp add: be xpath_all_Element)
qed

lemma xpath_all_city_object_member:
  "xpath_all (serialized_member g ifc_model idx building) (CORE @ ''Building'')
     = [serialized_building g ifc_model idx building]"
  by (simp add: serialized_member_def xpath_all_Element tags_distinct xpath_all_building_element)

lemma xpath_all_members:
  "concat (map (\<lambda>c. xpath_all c (CORE @ ''Building''))
             (map (\<lambda>(i, building). serialized_member g ifc_model i building) ibs))
     = map (\<lambda>(i, building). serialized_building g ifc_model i building) ibs"
  by (induction ibs) (auto simp: xpath_all_city_object_member)

lemma xpath_all_citygml_document:
  "xpath_all (citygml_document g ifc_model) (CORE @ ''Building'')
     = map (\<lambda>(i, building). serialized_building g ifc_model i building)
         (enumerate 0 (by_type ifc_model ''IfcBuilding''))"
  using xpath_all_members [of g ifc_model "enumerate 0 (by_type ifc_model ''IfcBuilding'')"]
  by (simp add: citygml_document_def xpath_all_Element tags_distinct
        xpath_all_bounded_by_Building del: map_map)

lemma serialized_building_name:
  "(case xpath_below (serialized_building g ifc_model idx building) (GML @ ''name'') of
      [] \<Rightarrow> Some ''Unknown'' | e # es \<Rightarrow> text_of e) = Some (resolved_name idx building)"
  by (simp add: serialized_building_def xpath_below_Element xpath_all_Element)

lemma process_building_appends:
  "length (xpath_all (fst (process_building g ifc_model idx building citymodel)) (CORE @ ''Building''))
     = Suc (length (xpath_all citymodel (CORE @ ''Building'')))"
  by (cases citymodel)
     (simp add: process_building_closed xpath_all_Element xpath_all_city_object_member)



section \<open>What \<open>validate_parity\<close> reports\<close>

lemma count_ifc_buildings_count:
  "fst (snd (count_ifc_buildings self fs p))
     = (case ifcopenshell_open fs p of Inr m \<Rightarrow> length (by_type m ''IfcBuilding'') | Inl e \<Rightarrow> 0)"
  by (simp add: count_ifc_buildings_def Let_def split: sum.splits)

lemma count_citygml_buildings_count:
  "fst (snd (count_citygml_buildings self fs q))
     = (case etree_parse fs q of Inr doc \<Rightarrow> length (xpath_all doc (CORE @ ''Building'')) | Inl e \<Rightarrow> 0)"
  by (simp add: count_citygml_buildings_def Let_def split: sum.splits)

lemma count_ifc_buildings_names:
  "map ibm_name (snd (snd (count_ifc_buildings v fs p)))
     = (case ifcopenshell_open fs p of
          Inr m \<Rightarrow> map (\<lambda>b. or_else (Name b) (''Building_'' @ str_nat (step_id b))) (by_type m ''IfcBuilding'')
        | Inl e \<Rightarrow> [])"
  by (simp add: count_ifc_buildings_def Let_def comp_def split: sum.splits)

lemma count_citygml_buildings_names:
  "map cbm_name (snd (snd (count_citygml_buildings v fs q)))
     = (case etree_parse fs q of
          Inr doc \<Rightarrow> map (\<lambda>b. case xpath_below b (GML @ ''name'') of
                                 [] \<Rightarrow> Some ''Unknown'' | e # es \<Rightarrow> text_of e)
                        (xpath_all doc (CORE @ ''Building''))
        | Inl e \<Rightarrow> [])"
  by (simp add: count_citygml_buildings_def Let_def comp_def split: sum.splits)

lemma validate_parity_ifc_buildings:
  "ifc_buildings (snd (validate_parity v fs p q))
     = (case ifcopenshell_open fs p of Inr m \<Rightarrow> length (by_type m ''IfcBuilding'') | Inl e \<Rightarrow> 0)"
  by (simp add: validate_parity_def Let_def split_beta count_ifc_buildings_count)

lemma validate_parity_citygml_buildings:
  "citygml_buildings (snd (validate_parity v fs p q))
     = (case etree_parse fs q of Inr doc \<Rightarrow> length (xpath_all doc (CORE @ ''Building'')) | Inl e \<Rightarrow> 0)"
  by (simp add: validate_parity_def Let_def split_beta count_citygml_buildings_count)

lemma validate_parity_buildings_parity:
  "buildings_parity (snd (validate_parity v fs p q))
     = (ifc_buildings (snd (validate_parity v fs p q)) = citygml_buildings (snd (validate_parity v fs p q)))"
  by (simp add: validate_parity_def Let_def split_beta)

lemma validate_parity_properties_parity:
  "properties_parity (snd (validate_parity v fs p q))
     = (if 0 < ifc_buildings (snd (validate_parity v fs p q))
           \<and> 0 < citygml_buildings (snd (validate_parity v fs p q))
        then set (map Some
                    (case ifcopenshell_open fs p of
                       Inr m \<Rightarrow> map (\<lambda>b. or_else (Name b) (''Building_'' @ str_nat (step_id b)))
                                  (by_type m ''IfcBuilding'')
                     | Inl e \<Rightarrow> []))
               = set (case etree_parse fs q of
                        Inr doc \<Rightarrow> map (\<lambda>b. case xpath_below b (GML @ ''name'') of
                                               [] \<Rightarrow> Some ''Unknown'' | e # es \<Rightarrow> text_of e)
                                      (xpath_all doc (CORE @ ''Building''))
                      | Inl e \<Rightarrow> [])
        else True)"
  by (simp add: validate_parity_def Let_def split_beta count_ifc_buildings_names
        count_citygml_buildings_names del: map_map set_map)

lemma count_ifc_storeys_count:
  "fst (snd (count_ifc_storeys v fs p))
     = (case ifcopenshell_open fs p of Inr m \<Rightarrow> length (by_type m ''IfcBuildingStorey'') | Inl e \<Rightarrow> 0)"
  by (simp add: count_ifc_storeys_def Let_def split: sum.splits)

lemma storey_metadata_loop_readable:
  assumes "list_all (\<lambda>e. text_of e \<noteq> None) names" and "elevation_readable doc"
  shows "\<exists>md. storey_metadata_loop doc names acc = Inr md"
  using assms(1)
proof (induction names arbitrary: acc)
  case Nil
  then show ?case by simp
next
  case (Cons n names)
  then obtain name_text where nt: "text_of n = Some name_text" and rest: "list_all (\<lambda>e. text_of e \<noteq> None) names"
    by auto
  show ?case
  proof (cases "filter (\<lambda>a. map_of (attrib a) ''name'' = Some ''storey_elevation'')
                  (xpath_all doc (CORE @ ''genericAttribute''))")
    case Nil
    then show ?thesis using Cons.IH [OF rest] nt by (simp add: Let_def)
  next
    case (Cons a as)
    then have "float_ok (case map_of (attrib a) ''value'' of None \<Rightarrow> ''0'' | Some v \<Rightarrow> v)"
      using assms(2) by (simp add: elevation_readable_def first_elevation_text_def)
    then show ?thesis
      using Cons Cons.IH [OF rest] nt by (simp add: Let_def py_float_def)
  qed
qed

lemma count_citygml_storeys_count:
  "fst (snd (count_citygml_storeys v fs q))
     = (case etree_parse fs q of
          Inl e \<Rightarrow> 0
        | Inr doc \<Rightarrow> (case storey_metadata_loop doc (storey_name_elements doc) [] of
                        Inl e \<Rightarrow> 0
                      | Inr md \<Rightarrow> length (storey_name_elements doc)))"
  by (simp add: count_citygml_storeys_def Let_def storey_name_elements_def split: sum.splits)

lemma validate_parity_ifc_storeys:
  "ifc_storeys (snd (validate_parity v fs p q))
     = (case ifcopenshell_open fs p of Inr m \<Rightarrow> length (by_type m ''IfcBuildingStorey'') | Inl e \<Rightarrow> 0)"
  by (simp add: validate_parity_def Let_def split_beta count_ifc_storeys_count)

lemma validate_parity_citygml_storeys:
  "citygml_storeys (snd (validate_parity v fs p q))
     = (case etree_parse fs q of
          Inl e \<Rightarrow> 0
        | Inr doc \<Rightarrow> (case storey_metadata_loop doc (storey_name_elements doc) [] of
                        Inl e \<Rightarrow> 0
                      | Inr md \<Rightarrow> length (storey_name_elements doc)))"
  by (simp add: validate_parity_def Let_def split_beta count_citygml_storeys_count)

lemma validate_parity_storeys_parity:
  "storeys_parity (snd (validate_parity v fs p q))
     = (ifc_storeys (snd (validate_parity v fs p q)) = citygml_storeys (snd (validate_parity v fs p q)))"
  by (simp add: validate_parity_def Let_def split_beta)

lemma validate_parity_resets:
  "validate_parity v fs p q = validate_parity init_validator fs p q"
  by (cases v) (simp add: validate_parity_def init_validator_def)

section \<open>The loop of \<open>main\<close>\<close>

lemma convert_files_successes:
  "fst (snd (snd (convert_files g d ps (c, fs, n, t))))
     = n + length (filter success (conversion_results g d ps c fs))"
proof (induction ps arbitrary: c fs n t)
  case Nil
  then show ?case by simp
next
  case (Cons p ps)
  obtain c' fs' r where pr: "process_ifc_file g c fs p d = (c', fs', r)"
    by (cases "process_ifc_file g c fs p d") auto
  show ?case
    using Cons.IH [of c' fs' "n + 1" "t + buildings_processed r"] Cons.IH [of c' fs' n t]
    by (simp add: pr)
qed

lemma length_conversion_results:
  "length (conversion_results g d ps c fs) = length ps"
proof (induction ps arbitrary: c fs)
  case Nil
  then show ?case by simp
next
  case (Cons p ps)
  obtain c' fs' r where pr: "process_ifc_file g c fs p d = (c', fs', r)"
    by (cases "process_ifc_file g c fs p d") auto
  show ?case using Cons.IH [of c' fs'] by (simp add: pr)
qed

lemma all_succeeded:
  "length (filter P xs) = length xs \<longleftrightarrow> list_all P xs"
proof (induction xs)
  case Nil
  then show ?case by simp
next
  case (Cons x xs)
  have "length (filter P xs) \<le> length xs" by (rule length_filter_le)
  then have "length (filter P xs) \<noteq> Suc (length xs)" by arith
  with Cons show ?case by auto
qed

lemma output_name_gml: "endswith (name (output_path p d)) ''.gml''"
  by (simp add: output_path_def endswith_def)

lemma convert_files_preserves:
  assumes "\<not> endswith (name q) ''.gml''"
  shows "map_of (files (fst (snd (convert_files g d ps (c, fs, n, t))))) q = map_of (files fs) q
       \<and> dirs (fst (snd (convert_files g d ps (c, fs, n, t)))) = dirs fs"
proof (induction ps arbitrary: c fs n t)
  case Nil
  then show ?case by simp
next
  case (Cons p ps)
  obtain c' fs' r where pr: "process_ifc_file g c fs p d = (c', fs', r)"
    by (cases "process_ifc_file g c fs p d") auto
  then have fs': "fs' = conversion_files g c fs p d" by (simp add: conversion_files_def)
  have "q \<noteq> output_path p d" using assms output_name_gml [of p d] by auto
  then have keep: "map_of (files fs') q = map_of (files fs) q" and dirs': "dirs fs' = dirs fs"
    by (simp_all add: fs' conversion_files_other conversion_files_dirs)
  show ?case
    using Cons.IH [of c' fs' "n + 1" "t + buildings_processed r"] Cons.IH [of c' fs' n t] keep dirs'
    by (simp add: pr)
qed

section \<open>The example files, evaluated\<close>

lemma str_nat_digit: "n < 10 \<Longrightarrow> str_nat n = [digit_char n]"
  by (simp add: str_nat.simps)

lemma towers_open: "ifcopenshell_open towers_fs (Path ''in'' ''a.ifc'') = Inr two_towers"
  by (simp add: ifcopenshell_open_def towers_fs_def)

lemma towers_out: "''out'' \<in> set (dirs towers_fs)"
  by (simp add: towers_fs_def)

lemma towers_buildings:
  "by_type two_towers ''IfcBuilding''
     = [(blank_entity 10 ''IfcBuilding'')\<lparr>Name := Some ''Tower A'', GlobalId := Some ''G10''\<rparr>,
        (blank_entity 11 ''IfcBuilding'')\<lparr>Name := Some []\<rparr>]"
  by (simp add: by_type_def two_towers_def blank_entity_def is_a_def)

lemma storeys_only_open: "ifcopenshell_open storeys_only_fs (Path ''in'' ''s.ifc'') = Inr storeys_only"
  by (simp add: ifcopenshell_open_def storeys_only_fs_def)

lemma storeys_only_buildings: "by_type storeys_only ''IfcBuilding'' = []"
  by (simp add: by_type_def storeys_only_def blank_entity_def is_a_def)

lemma glob_storeys_only:
  "glob_ifc storeys_only_fs ''in'' = [Path ''in'' ''s.ifc'']"
  by (simp add: glob_ifc_def storeys_only_fs_def endswith_def)

lemma glob_towers:
  "glob_ifc towers_fs ''in'' = [Path ''in'' ''a.ifc'']"
  by (simp add: glob_ifc_def towers_fs_def endswith_def)

lemma towers_converted_target:
  "etree_parse (conversion_files module_ifc_model init_converter towers_fs (Path ''in'' ''a.ifc'') ''out'')
      (Path ''out'' ''a.gml'') = Inr (citygml_document module_ifc_model two_towers)"
  using written_document [OF towers_open towers_out, of module_ifc_model init_converter]
  by (simp add: output_path_def stem_def rfind_dot_def)

lemma towers_converted_source:
  "ifcopenshell_open (conversion_files module_ifc_model init_converter towers_fs (Path ''in'' ''a.ifc'') ''out'')
      (Path ''in'' ''a.ifc'') = Inr two_towers"
proof -
  have "Path ''in'' ''a.ifc'' \<noteq> output_path (Path ''in'' ''a.ifc'') ''out''"
    by (simp add: output_path_def)
  then have "map_of (files (conversion_files module_ifc_model init_converter towers_fs (Path ''in'' ''a.ifc'') ''out''))
               (Path ''in'' ''a.ifc'') = map_of (files towers_fs) (Path ''in'' ''a.ifc'')"
    by (rule conversion_files_other)
  then show ?thesis
    using towers_open by (simp add: ifcopenshell_open_def)
qed

lemma towers_target_names:
  "map (\<lambda>b. case xpath_below b (GML @ ''name'') of [] \<Rightarrow> Some ''Unknown'' | e # es \<Rightarrow> text_of e)
     (xpath_all (citygml_document module_ifc_model two_towers) (CORE @ ''Building''))
   = [Some ''Tower A'', Some ''Building_1'']"
  by (simp add: xpath_all_citygml_document comp_def split_beta serialized_building_name
        resolved_name_def towers_buildings blank_entity_def or_else_def str_nat_digit digit_char_def)

lemma towers_source_names:
  "map (\<lambda>b. or_else (Name b) (''Building_'' @ str_nat (step_id b))) (by_type two_towers ''IfcBuilding'')
   = [''Tower A'', ''Building_11'']"
proof -
  have "str_nat 11 = ''11''" by code_simp
  then show ?thesis
    by (simp add: towers_buildings blank_entity_def or_else_def)
qed

lemma storeys_only_converted_target:
  "etree_parse (conversion_files module_ifc_model init_converter storeys_only_fs (Path ''in'' ''s.ifc'') ''out'')
      (Path ''out'' ''s.gml'') = Inr (citygml_document module_ifc_model storeys_only)"
proof -
  have d: "''out'' \<in> set (dirs storeys_only_fs)" by (simp add: storeys_only_fs_def)
  show ?thesis
    using written_document [OF storeys_only_open d, of module_ifc_model init_converter]
    by (simp add: output_path_def stem_def rfind_dot_def)
qed

lemma storeys_only_converted_source:
  "ifcopenshell_open (conversion_files module_ifc_model init_converter storeys_only_fs (Path ''in'' ''s.ifc'') ''out'')
      (Path ''in'' ''s.ifc'') = Inr storeys_only"
proof -
  have "Path ''in'' ''s.ifc'' \<noteq> output_path (Path ''in'' ''s.ifc'') ''out''"
    by (simp add: output_path_def)
  then have "map_of (files (conversion_files module_ifc_model init_converter storeys_only_fs (Path ''in'' ''s.ifc'') ''out''))
               (Path ''in'' ''s.ifc'') = map_of (files storeys_only_fs) (Path ''in'' ''s.ifc'')"
    by (rule conversion_files_other)
  then show ?thesis
    using storeys_only_open by (simp add: ifcopenshell_open_def)
qed

lemma storeys_only_storeys: "length (by_type storeys_only ''IfcBuildingStorey'') = 1"
  by (simp add: by_type_def storeys_only_def blank_entity_def is_a_def)

lemma storeys_only_document:
  "citygml_document module_ifc_model storeys_only = Element (CORE @ ''CityModel'') [] None [bounded_by] None"
  by (simp add: citygml_document_def storeys_only_buildings)

lemma empty_document_storey_names:
  "storey_name_elements (Element (CORE @ ''CityModel'') [] None [bounded_by] None) = []"
  by (simp add: storey_name_elements_def xpath_all_Element bounded_by_def
        CORE_def GML_def CITYGML_NS_def GML_NS_def startswith_def)

lemma towers_elevation_readable: "elevation_readable (citygml_document module_ifc_model two_towers)"
  by code_simp

lemma towers_storey_names:
  "filter (\<lambda>e. text_starts_with e ''Storey::'')
     (xpath_all (citygml_document module_ifc_model two_towers) (GML @ ''name''))
   = [Element (GML @ ''name'') [] (Some ''Storey::L1'') [] None]"
  by code_simp

lemma towers_storeys: "length (by_type two_towers ''IfcBuildingStorey'') = 1"
  by code_simp


lemma float_ok_examples:
  "float_ok ''3.5'' \<and> float_ok (CHR 0xA0 # ''3.5'') \<and> float_ok '' -1_0.5e+3 '' \<and> float_ok ''Infinity''
   \<and> \<not> float_ok ''None'' \<and> \<not> float_ok [] \<and> \<not> float_ok ''1__0'' \<and> \<not> float_ok ''1 0''"
  by code_simp

section \<open>The claims\<close>

text \<open>
  Claim C1 (round-trip law). Whenever the conversion of a file returns a result with
  \<open>success = True\<close> and an empty error list, parity validation of the source file and
  the produced target file, on the files the conversion left, reports
  \<open>buildings_parity = True\<close>. In the module as written such a result means that the
  source has no building, so both counts are 0; this also holds when the target path is
  the source path and the conversion has overwritten its own input.
\<close>

theorem roundtrip_buildings_parity:
  assumes "success (conversion_result module_ifc_model self fs ifc_path output_dir)"
      and "errors (conversion_result module_ifc_model self fs ifc_path output_dir) = []"
  shows "buildings_parity
           (snd (validate_parity v (conversion_files module_ifc_model self fs ifc_path output_dir)
                   ifc_path (output_path ifc_path output_dir)))"
proof (cases "ifcopenshell_open fs ifc_path")
  case (Inl e)
  with assms(1) show ?thesis
    by (simp add: conversion_result_def process_ifc_file_unreadable)
next
  case (Inr ifc_model)
  show ?thesis
  proof (cases "output_dir \<in> set (dirs fs)")
    case False
    with assms(1) Inr show ?thesis
      by (simp add: conversion_result_def process_ifc_file_unwritable)
  next
    case True
    let ?out = "output_path ifc_path output_dir"
    let ?fs' = "conversion_files module_ifc_model self fs ifc_path output_dir"
    have none: "by_type ifc_model ''IfcBuilding'' = []"
      using assms(2)
      by (simp add: conversion_result_def process_ifc_file_written [OF Inr True]
            module_ifc_model_def building_errors_unbound)
    have files: "?fs' = fs\<lparr>files := AList.update ?out
                    (XmlFile (Element (CORE @ ''CityModel'') [] None [bounded_by] None)) (files fs)\<rparr>"
      using none
      by (simp add: conversion_files_def process_ifc_file_written [OF Inr True] citygml_document_def)
    have target: "etree_parse ?fs' ?out = Inr (Element (CORE @ ''CityModel'') [] None [bounded_by] None)"
      by (simp add: files etree_parse_def AList.update_conv')
    have source: "(case ifcopenshell_open ?fs' ifc_path of
                     Inr m \<Rightarrow> length (by_type m ''IfcBuilding'') | Inl e \<Rightarrow> 0) = 0"
    proof (cases "ifc_path = ?out")
      case True
      then show ?thesis
        by (simp add: files ifcopenshell_open_def AList.update_conv')
    next
      case False
      then have "ifcopenshell_open ?fs' ifc_path = ifcopenshell_open fs ifc_path"
        by (simp add: files ifcopenshell_open_def AList.update_conv')
      then show ?thesis using Inr none by simp
    qed
    show ?thesis
      unfolding validate_parity_buildings_parity validate_parity_ifc_buildings
        validate_parity_citygml_buildings source target
      by (simp add: xpath_all_empty_document)
  qed
qed

text \<open>Claim C1 at the file that holds one storey and no building.\<close>

theorem roundtrip_buildings_parity_witness:
  "success (conversion_result module_ifc_model init_converter storeys_only_fs (Path ''in'' ''s.ifc'') ''out'')
   \<and> errors (conversion_result module_ifc_model init_converter storeys_only_fs (Path ''in'' ''s.ifc'') ''out'') = []
   \<and> buildings_parity
         (snd (validate_parity init_validator
                 (conversion_files module_ifc_model init_converter storeys_only_fs (Path ''in'' ''s.ifc'') ''out'')
                 (Path ''in'' ''s.ifc'') (output_path (Path ''in'' ''s.ifc'') ''out'')))"
proof -
  have op: "ifcopenshell_open storeys_only_fs (Path ''in'' ''s.ifc'') = Inr storeys_only"
    by (simp add: ifcopenshell_open_def storeys_only_fs_def)
  have d: "''out'' \<in> set (dirs storeys_only_fs)" by (simp add: storeys_only_fs_def)
  have nb: "by_type storeys_only ''IfcBuilding'' = []"
    by (simp add: by_type_def storeys_only_def blank_entity_def is_a_def)
  have ok: "success (conversion_result module_ifc_model init_converter storeys_only_fs (Path ''in'' ''s.ifc'') ''out'')"
    by (simp add: conversion_result_def process_ifc_file_written [OF op d] nb building_errors_def)
  have er: "errors (conversion_result module_ifc_model init_converter storeys_only_fs (Path ''in'' ''s.ifc'') ''out'') = []"
    by (simp add: conversion_result_def process_ifc_file_written [OF op d] nb building_errors_def)
  show ?thesis
    using roundtrip_buildings_parity [OF ok er, of init_validator] ok er by simp
qed

text \<open>
  Claim C2. \<open>extract_building_properties\<close> reads the unbound name \<open>ifc_model\<close>, so it
  raises \<open>NameError\<close> for every building. For a readable file with at least one
  \<open>IfcBuilding\<close> the conversion result therefore has \<open>success = False\<close> and
  \<open>buildings_processed = 0\<close>, and its error list starts with one message per building,
  in index order; the list holds nothing else unless writing the output fails, which
  adds the single file-level message.
\<close>

theorem name_error_fails_every_building:
  assumes "ifcopenshell_open fs ifc_path = Inr ifc_model"
      and "by_type ifc_model ''IfcBuilding'' \<noteq> []"
  shows "extract_building_properties module_ifc_model building = Inl (NameError ''ifc_model'')
       \<and> \<not> success (conversion_result module_ifc_model self fs ifc_path output_dir)
       \<and> buildings_processed (conversion_result module_ifc_model self fs ifc_path output_dir) = 0
       \<and> take (length (by_type ifc_model ''IfcBuilding''))
            (errors (conversion_result module_ifc_model self fs ifc_path output_dir))
          = map (\<lambda>idx. building_error_msg idx (NameError ''ifc_model''))
              [0..<length (by_type ifc_model ''IfcBuilding'')]
       \<and> length (errors (conversion_result module_ifc_model self fs ifc_path output_dir))
          = length (by_type ifc_model ''IfcBuilding'') + (if output_dir \<in> set (dirs fs) then 0 else 1)"
proof (cases "output_dir \<in> set (dirs fs)")
  case True
  show ?thesis
    using assms(2) True
    by (simp add: conversion_result_def process_ifc_file_written [OF assms(1) True]
          module_ifc_model_def extract_unbound building_errors_unbound error_free_unbound)
next
  case False
  show ?thesis
    using assms(2) False
    by (simp add: conversion_result_def process_ifc_file_unwritable [OF assms(1) False]
          module_ifc_model_def extract_unbound building_errors_unbound error_free_unbound)
qed

text \<open>Claim C2 at the file with the two buildings.\<close>

theorem name_error_fails_every_building_witness:
  "ifcopenshell_open towers_fs (Path ''in'' ''a.ifc'') = Inr two_towers
   \<and> by_type two_towers ''IfcBuilding'' \<noteq> []
   \<and> \<not> success (conversion_result module_ifc_model init_converter towers_fs (Path ''in'' ''a.ifc'') ''out'')
   \<and> buildings_processed (conversion_result module_ifc_model init_converter towers_fs (Path ''in'' ''a.ifc'') ''out'') = 0
   \<and> errors (conversion_result module_ifc_model init_converter towers_fs (Path ''in'' ''a.ifc'') ''out'')
       = [''Error processing building 0: name '' @ [CHR 0x27] @ ''ifc_model'' @ [CHR 0x27] @ '' is not defined'',
          ''Error processing building 1: name '' @ [CHR 0x27] @ ''ifc_model'' @ [CHR 0x27] @ '' is not defined'']"
proof -
  have bs: "by_type two_towers ''IfcBuilding'' \<noteq> []"
    by (simp add: towers_buildings)
  have n: "length (by_type two_towers ''IfcBuilding'') = 2"
    by (simp add: towers_buildings)
  have msgs: "map (\<lambda>idx. building_error_msg idx (NameError ''ifc_model'')) [0..<2]
       = [''Error processing building 0: name '' @ [CHR 0x27] @ ''ifc_model'' @ [CHR 0x27] @ '' is not defined'',
          ''Error processing building 1: name '' @ [CHR 0x27] @ ''ifc_model'' @ [CHR 0x27] @ '' is not defined'']"
    by code_simp
  have "take 2 (errors (conversion_result module_ifc_model init_converter towers_fs (Path ''in'' ''a.ifc'') ''out''))
          = map (\<lambda>idx. building_error_msg idx (NameError ''ifc_model'')) [0..<2]
        \<and> length (errors (conversion_result module_ifc_model init_converter towers_fs (Path ''in'' ''a.ifc'') ''out'')) = 2
        \<and> \<not> success (conversion_result module_ifc_model init_converter towers_fs (Path ''in'' ''a.ifc'') ''out'')
        \<and> buildings_processed (conversion_result module_ifc_model init_converter towers_fs (Path ''in'' ''a.ifc'') ''out'') = 0"
    using name_error_fails_every_building
            [OF towers_open bs, of "blank_entity 10 ''IfcBuilding''" init_converter "''out''"] towers_out
    by (simp only: n) simp
  then have "errors (conversion_result module_ifc_model init_converter towers_fs (Path ''in'' ''a.ifc'') ''out'')
          = map (\<lambda>idx. building_error_msg idx (NameError ''ifc_model'')) [0..<2]
        \<and> \<not> success (conversion_result module_ifc_model init_converter towers_fs (Path ''in'' ''a.ifc'') ''out'')
        \<and> buildings_processed (conversion_result module_ifc_model init_converter towers_fs (Path ''in'' ''a.ifc'') ''out'') = 0"
    by (metis order_refl take_all)
  then show ?thesis
    unfolding msgs using towers_open bs by blast
qed

text \<open>
  Claim C3 (boundary). For a readable source file without any \<open>IfcBuilding\<close>, converted
  into an existing directory, the target document is the bare \<open>CityModel\<close> root, with no
  \<open>Building\<close> element; the result has \<open>buildings_processed = 0\<close> and \<open>success = True\<close>;
  its warnings are the no-building warning, followed by the storey-count warning exactly
  when the file has storeys. No building is made up for those storeys.
\<close>

theorem no_buildings_boundary:
  assumes "ifcopenshell_open fs ifc_path = Inr ifc_model"
      and "by_type ifc_model ''IfcBuilding'' = []"
      and "output_dir \<in> set (dirs fs)"
  shows "etree_parse (conversion_files module_ifc_model self fs ifc_path output_dir)
           (output_path ifc_path output_dir) = Inr create_citymodel_root
       \<and> xpath_all create_citymodel_root (CORE @ ''Building'') = []
       \<and> buildings_processed (conversion_result module_ifc_model self fs ifc_path output_dir) = 0
       \<and> success (conversion_result module_ifc_model self fs ifc_path output_dir)
       \<and> warnings (conversion_result module_ifc_model self fs ifc_path output_dir)
          = ''No IfcBuilding entities found in IFC file''
            # (if by_type ifc_model ''IfcBuildingStorey'' = [] then []
               else [''Found '' @ str_nat (length (by_type ifc_model ''IfcBuildingStorey''))
                     @ '' building storeys without building entity''])"
  using assms(2)
  by (simp add: conversion_result_def conversion_files_def
        process_ifc_file_written [OF assms(1) assms(3)]
        building_errors_def no_building_warnings_def citygml_document_def
        create_citymodel_root_closed xpath_all_empty_document
        etree_parse_def AList.update_conv' del: One_nat_def)

text \<open>Claim C3 at the file that holds one storey and no building: two warnings.\<close>

theorem no_buildings_boundary_witness:
  "ifcopenshell_open storeys_only_fs (Path ''in'' ''s.ifc'') = Inr storeys_only
   \<and> by_type storeys_only ''IfcBuilding'' = []
   \<and> ''out'' \<in> set (dirs storeys_only_fs)
   \<and> etree_parse (conversion_files module_ifc_model init_converter storeys_only_fs (Path ''in'' ''s.ifc'') ''out'')
         (output_path (Path ''in'' ''s.ifc'') ''out'') = Inr create_citymodel_root
   \<and> xpath_all create_citymodel_root (CORE @ ''Building'') = []
   \<and> buildings_processed (conversion_result module_ifc_model init_converter storeys_only_fs (Path ''in'' ''s.ifc'') ''out'') = 0
   \<and> success (conversion_result module_ifc_model init_converter storeys_only_fs (Path ''in'' ''s.ifc'') ''out'')
   \<and> warnings (conversion_result module_ifc_model init_converter storeys_only_fs (Path ''in'' ''s.ifc'') ''out'')
       = [''No IfcBuilding entities found in IFC file'',
          ''Found 1 building storeys without building entity'']"
proof -
  have op: "ifcopenshell_open storeys_only_fs (Path ''in'' ''s.ifc'') = Inr storeys_only"
    by (simp add: ifcopenshell_open_def storeys_only_fs_def)
  have nb: "by_type storeys_only ''IfcBuilding'' = []"
    by (simp add: by_type_def storeys_only_def blank_entity_def is_a_def)
  have st: "by_type storeys_only ''IfcBuildingStorey'' = storeys_only"
    by (simp add: by_type_def storeys_only_def blank_entity_def is_a_def)
  have len: "length storeys_only = 1" by (simp add: storeys_only_def)
  have one: "str_nat (Suc 0) = ''1''" by (simp add: str_nat.simps digit_char_def)
  have ne: "storeys_only \<noteq> []" by (simp add: storeys_only_def)
  have d: "''out'' \<in> set (dirs storeys_only_fs)" by (simp add: storeys_only_fs_def)
  show ?thesis
    using no_buildings_boundary [OF op nb d, of init_converter] op nb d
    by (simp add: st len one ne)
qed



text \<open>
  The written documents owe this to the order of the calls: the properties are looked up
  before they are serialized, and the lookup raises (claim C2), so
  \<open>add_building_properties\<close> is never reached. Taken alone, it appends one generic
  attribute for every key of its dictionary other than \<open>name\<close>, whatever the key.
\<close>

lemma add_building_properties_appends:
  assumes "element_at building_element root = Some e"
  shows "element_at building_element (add_building_properties root building_element properties)
         = Some (Element (tag e) (attrib e) (text_of e)
                   (children e
                    @ map (\<lambda>(k, v). Element (CORE @ ''genericAttribute'')
                                        [(''name'', k), (''value'', v)] None [] None)
                        (filter (\<lambda>(k, v). k \<noteq> ''name'') properties)) (tail e))"
  using assms
  by (simp add: add_building_properties_closed element_at_modify_at append_children_def
        property_elements_def generic_attribute_def split_def)

text \<open>
  Claim C5 says that the validator's source-side count is the number of storeys
  aggregated under any building. \<open>count_ifc_storeys\<close> counts every \<open>IfcBuildingStorey\<close>
  of the file: for the file that holds one storey and no building it reports 1, where
  the claim's count is 0; the converted target has no storey name, and storeys parity
  fails.
\<close>

theorem orphan_storey_counterexample:
  "ifc_storeys (snd (validate_parity init_validator
       (conversion_files module_ifc_model init_converter storeys_only_fs (Path ''in'' ''s.ifc'') ''out'')
       (Path ''in'' ''s.ifc'') (Path ''out'' ''s.gml''))) = 1
   \<and> length (spec_storeys_under_buildings storeys_only) = 0
   \<and> citygml_storeys (snd (validate_parity init_validator
       (conversion_files module_ifc_model init_converter storeys_only_fs (Path ''in'' ''s.ifc'') ''out'')
       (Path ''in'' ''s.ifc'') (Path ''out'' ''s.gml''))) = 0
   \<and> \<not> storeys_parity (snd (validate_parity init_validator
       (conversion_files module_ifc_model init_converter storeys_only_fs (Path ''in'' ''s.ifc'') ''out'')
       (Path ''in'' ''s.ifc'') (Path ''out'' ''s.gml'')))"
proof -
  let ?r = "snd (validate_parity init_validator
       (conversion_files module_ifc_model init_converter storeys_only_fs (Path ''in'' ''s.ifc'') ''out'')
       (Path ''in'' ''s.ifc'') (Path ''out'' ''s.gml''))"
  have a: "ifc_storeys ?r = 1"
    by (simp add: validate_parity_ifc_storeys storeys_only_converted_source storeys_only_storeys)
  have b: "length (spec_storeys_under_buildings storeys_only) = 0"
    by (simp add: spec_storeys_under_buildings_def storeys_only_def blank_entity_def is_a_def)
  have c: "citygml_storeys ?r = 0"
    by (simp add: validate_parity_citygml_storeys storeys_only_converted_target
          storeys_only_document empty_document_storey_names)
  have d: "\<not> storeys_parity ?r"
    by (simp add: validate_parity_storeys_parity a c)
  from a b c d show ?thesis by simp
qed

text \<open>
  Claim C5, amended. For a source file that opens and a target file that parses, in which
  every name element the storey query matches has a \<open>.text\<close> of its own and the first
  \<open>storey_elevation\<close> value, if there is one, is text \<open>float\<close> accepts: the source-side
  count is the number of all \<open>IfcBuildingStorey\<close> entities of the source file, aggregated
  under a building or not; the target-side count is the number of name elements anywhere
  in the document whose text begins with \<open>Storey::\<close>; and \<open>storeys_parity\<close> is true
  exactly when the two counts are equal. The last part needs none of the conditions.
\<close>

theorem storey_count_parity:
  assumes "ifcopenshell_open fs ifc_path = Inr ifc_model"
      and "etree_parse fs citygml_path = Inr doc"
      and "list_all (\<lambda>e. text_of e \<noteq> None)
             (filter (\<lambda>e. text_starts_with e ''Storey::'') (xpath_all doc (GML @ ''name'')))"
      and "elevation_readable doc"
  shows "ifc_storeys (snd (validate_parity v fs ifc_path citygml_path))
           = length (by_type ifc_model ''IfcBuildingStorey'')
       \<and> citygml_storeys (snd (validate_parity v fs ifc_path citygml_path))
           = length (filter (\<lambda>e. text_starts_with e ''Storey::'') (xpath_all doc (GML @ ''name'')))
       \<and> storeys_parity (snd (validate_parity v fs ifc_path citygml_path))
           = (ifc_storeys (snd (validate_parity v fs ifc_path citygml_path))
              = citygml_storeys (snd (validate_parity v fs ifc_path citygml_path)))"
proof -
  have "list_all (\<lambda>e. text_of e \<noteq> None) (storey_name_elements doc)"
    using assms(3) by (simp add: storey_name_elements_def)
  then obtain md where "storey_metadata_loop doc (storey_name_elements doc) [] = Inr md"
    using storey_metadata_loop_readable [OF _ assms(4)] by blast
  then have "citygml_storeys (snd (validate_parity v fs ifc_path citygml_path))
               = length (storey_name_elements doc)"
    by (simp add: validate_parity_citygml_storeys assms(2))
  then show ?thesis
    using validate_parity_storeys_parity [of v fs ifc_path citygml_path]
    by (simp add: validate_parity_ifc_storeys assms(1) storey_name_elements_def)
qed

text \<open>Claim C5, amended, at the file with the two buildings and its converted target.\<close>

theorem storey_count_parity_witness:
  "ifcopenshell_open (conversion_files module_ifc_model init_converter towers_fs (Path ''in'' ''a.ifc'') ''out'')
      (Path ''in'' ''a.ifc'') = Inr two_towers
   \<and> etree_parse (conversion_files module_ifc_model init_converter towers_fs (Path ''in'' ''a.ifc'') ''out'')
      (Path ''out'' ''a.gml'') = Inr (citygml_document module_ifc_model two_towers)
   \<and> list_all (\<lambda>e. text_of e \<noteq> None)
        (filter (\<lambda>e. text_starts_with e ''Storey::'')
           (xpath_all (citygml_document module_ifc_model two_towers) (GML @ ''name'')))
   \<and> elevation_readable (citygml_document module_ifc_model two_towers)
   \<and> ifc_storeys (snd (validate_parity init_validator
         (conversion_files module_ifc_model init_converter towers_fs (Path ''in'' ''a.ifc'') ''out'')
         (Path ''in'' ''a.ifc'') (Path ''out'' ''a.gml''))) = 1
   \<and> citygml_storeys (snd (validate_parity init_validator
         (conversion_files module_ifc_model init_converter towers_fs (Path ''in'' ''a.ifc'') ''out'')
         (Path ''in'' ''a.ifc'') (Path ''out'' ''a.gml''))) = 1
   \<and> storeys_parity (snd (validate_parity init_validator
         (conversion_files module_ifc_model init_converter towers_fs (Path ''in'' ''a.ifc'') ''out'')
         (Path ''in'' ''a.ifc'') (Path ''out'' ''a.gml'')))"
proof -
  have texts: "list_all (\<lambda>e. text_of e \<noteq> None)
        (filter (\<lambda>e. text_starts_with e ''Storey::'')
           (xpath_all (citygml_document module_ifc_model two_towers) (GML @ ''name'')))"
    by (simp add: towers_storey_names)
  show ?thesis
    using storey_count_parity [OF towers_converted_source towers_converted_target texts
            towers_elevation_readable, of init_validator]
    by (simp add: towers_converted_source towers_converted_target towers_elevation_readable
          towers_storey_names towers_storeys)
qed

text \<open>
  Why the amended claim asks for a readable elevation: a storey whose \<open>Elevation\<close> is
  unset is written with the value \<open>None\<close>, \<open>float\<close> raises on it, and the \<open>except\<close> of
  \<open>count_citygml_storeys\<close> returns 0 although the document has a storey name.
\<close>

lemma unset_elevation_hides_storeys:
  "length (storey_name_elements (citygml_document module_ifc_model unset_elevation)) = 1
   \<and> first_elevation_text (citygml_document module_ifc_model unset_elevation) = Some ''None''
   \<and> \<not> float_ok ''None''
   \<and> fst (snd (count_citygml_storeys init_validator
          \<lparr>dirs = [''out''],
           files = [(Path ''out'' ''h.gml'', XmlFile (citygml_document module_ifc_model unset_elevation))]\<rparr>
          (Path ''out'' ''h.gml''))) = 0"
  by code_simp

text \<open>
  Why it asks for the matched elements' own text: in \<open>mixed_content\<close> the query matches
  a name element on the tail of its child, the element's \<open>.text\<close> is \<open>None\<close>, the call
  of \<open>replace\<close> on it raises, and the count is 0 again.
\<close>

lemma mixed_content_hides_storeys:
  "length (storey_name_elements mixed_content) = 1
   \<and> map text_of (storey_name_elements mixed_content) = [None]
   \<and> fst (snd (count_citygml_storeys init_validator
          \<lparr>dirs = [''out''], files = [(Path ''out'' ''m.gml'', XmlFile mixed_content)]\<rparr>
          (Path ''out'' ''m.gml''))) = 0"
  by code_simp

text \<open>
  Claim C6 (per-building error tolerance). The method is \<open>process_ifc_file_with\<close> at the
  body \<open>process_building\<close>. For any body at all, a readable source and an existing output
  directory: when the body raises \<open>e\<close> for the building at index \<open>idx\<close>, whatever
  exception \<open>e\<close> is, the error list of the result holds the string
  \<open>Error processing building idx: str(e)\<close>; the loop goes on, every building being
  accounted for as processed or by an error; \<open>success\<close> is false; and the document is
  still written at the output path, which the result reports.
\<close>

theorem per_building_error_tolerance:
  assumes "ifcopenshell_open fs ifc_path = Inr ifc_model"
      and "output_dir \<in> set (dirs fs)"
      and "idx < length (by_type ifc_model ''IfcBuilding'')"
      and "\<forall>citymodel. snd (body ifc_model idx (by_type ifc_model ''IfcBuilding'' ! idx) citymodel) = Inl e"
  shows "process_ifc_file g self fs ifc_path output_dir
           = process_ifc_file_with (process_building g) self fs ifc_path output_dir
       \<and> (''Error processing building '' @ str_nat idx @ '': '' @ str_exn e)
           \<in> set (errors (snd (snd (process_ifc_file_with body self fs ifc_path output_dir))))
       \<and> buildings_processed (snd (snd (process_ifc_file_with body self fs ifc_path output_dir)))
             + length (errors (snd (snd (process_ifc_file_with body self fs ifc_path output_dir))))
           = length (by_type ifc_model ''IfcBuilding'')
       \<and> \<not> success (snd (snd (process_ifc_file_with body self fs ifc_path output_dir)))
       \<and> output_file (snd (snd (process_ifc_file_with body self fs ifc_path output_dir)))
           = str_path (output_path ifc_path output_dir)
       \<and> (\<exists>doc. etree_parse (fst (snd (process_ifc_file_with body self fs ifc_path output_dir)))
                    (output_path ifc_path output_dir) = Inr doc)"
proof -
  let ?start = "\<lparr>self_buildings_processed = 0, self_errors = [],
                  self_warnings = no_building_warnings ifc_model\<rparr>"
  let ?done = "for_buildings_with (body ifc_model) 0 (by_type ifc_model ''IfcBuilding'')
                 (?start, create_citymodel_root)"
  have raises: "\<forall>citymodel. snd (body ifc_model (0 + idx) (by_type ifc_model ''IfcBuilding'' ! idx) citymodel) = Inl e"
    using assms(4) by simp
  have mem: "(''Error processing building '' @ str_nat idx @ '': '' @ str_exn e)
               \<in> set (self_errors (fst ?done))"
    using for_buildings_with_records
            [where k = idx and buildings = "by_type ifc_model ''IfcBuilding''"
               and body = "body ifc_model" and idx = 0 and e = e
               and self = ?start and citymodel = create_citymodel_root]
          assms(3) raises
    by simp
  obtain new where "self_errors (fst ?done) = self_errors ?start @ new"
      and "self_buildings_processed (fst ?done) + length new
            = self_buildings_processed ?start + length (by_type ifc_model ''IfcBuilding'')"
    using for_buildings_with_accounts [of "body ifc_model" 0 "by_type ifc_model ''IfcBuilding''"
            ?start create_citymodel_root] by blast
  then have acc: "self_buildings_processed (fst ?done) + length (self_errors (fst ?done))
                    = length (by_type ifc_model ''IfcBuilding'')"
    by simp
  have ne: "self_errors (fst ?done) \<noteq> []" using mem by auto
  have written: "etree_parse (fst (snd (process_ifc_file_with body self fs ifc_path output_dir)))
                   (output_path ifc_path output_dir) = Inr (snd ?done)"
    by (simp add: process_ifc_file_with_written [OF assms(1,2)] Let_def etree_parse_def
          AList.update_conv')
  show ?thesis
    using mem acc ne written
    by (simp add: process_ifc_file_is_with process_ifc_file_with_written [OF assms(1,2)] Let_def)
qed

text \<open>
  Claim C6 twice at the file with the two buildings: the method as written, where the
  second building raises \<open>NameError\<close>, and a body that raises \<open>ValueError\<close> for the first
  building and lets the second through.
\<close>

theorem per_building_error_tolerance_witness:
  "ifcopenshell_open towers_fs (Path ''in'' ''a.ifc'') = Inr two_towers
   \<and> ''out'' \<in> set (dirs towers_fs)
   \<and> 1 < length (by_type two_towers ''IfcBuilding'')
   \<and> (\<forall>citymodel. snd (process_building module_ifc_model two_towers 1
                              (by_type two_towers ''IfcBuilding'' ! 1) citymodel)
                      = Inl (NameError ''ifc_model''))
   \<and> (''Error processing building 1: name '' @ [CHR 0x27] @ ''ifc_model'' @ [CHR 0x27] @ '' is not defined'')
       \<in> set (errors (conversion_result module_ifc_model init_converter towers_fs (Path ''in'' ''a.ifc'') ''out''))
   \<and> \<not> success (conversion_result module_ifc_model init_converter towers_fs (Path ''in'' ''a.ifc'') ''out'')
   \<and> output_file (conversion_result module_ifc_model init_converter towers_fs (Path ''in'' ''a.ifc'') ''out'')
       = ''out/a.gml''
   \<and> etree_parse (conversion_files module_ifc_model init_converter towers_fs (Path ''in'' ''a.ifc'') ''out'')
         (Path ''out'' ''a.gml'') = Inr (citygml_document module_ifc_model two_towers)
   \<and> (\<forall>citymodel. snd (raising_body (ValueError ''bad name'') two_towers 0
                              (by_type two_towers ''IfcBuilding'' ! 0) citymodel)
                      = Inl (ValueError ''bad name''))
   \<and> errors (snd (snd (process_ifc_file_with (raising_body (ValueError ''bad name''))
                          init_converter towers_fs (Path ''in'' ''a.ifc'') ''out'')))
       = [''Error processing building 0: bad name'']
   \<and> buildings_processed (snd (snd (process_ifc_file_with (raising_body (ValueError ''bad name''))
                          init_converter towers_fs (Path ''in'' ''a.ifc'') ''out''))) = 1
   \<and> \<not> success (snd (snd (process_ifc_file_with (raising_body (ValueError ''bad name''))
                          init_converter towers_fs (Path ''in'' ''a.ifc'') ''out'')))"
proof -
  have i: "1 < length (by_type two_towers ''IfcBuilding'')"
    by (simp add: towers_buildings)
  have i0: "0 < length (by_type two_towers ''IfcBuilding'')"
    by (simp add: towers_buildings)
  have r: "\<forall>citymodel. snd (process_building module_ifc_model two_towers 1
                              (by_type two_towers ''IfcBuilding'' ! 1) citymodel)
             = Inl (NameError ''ifc_model'')"
    by (simp add: snd_process_building module_ifc_model_def extract_unbound)
  have r0: "\<forall>citymodel. snd (raising_body (ValueError ''bad name'') two_towers 0
                              (by_type two_towers ''IfcBuilding'' ! 0) citymodel)
             = Inl (ValueError ''bad name'')"
    by (simp add: raising_body_def)
  have p: "str_path (output_path (Path ''in'' ''a.ifc'') ''out'') = ''out/a.gml''"
    by (simp add: output_path_def str_path_def stem_def rfind_dot_def)
  have m1: "''Error processing building '' @ str_nat 1 @ '': '' @ str_exn (NameError ''ifc_model'')
            = ''Error processing building 1: name '' @ [CHR 0x27] @ ''ifc_model'' @ [CHR 0x27] @ '' is not defined''"
    by code_simp
  have real: "(''Error processing building 1: name '' @ [CHR 0x27] @ ''ifc_model'' @ [CHR 0x27] @ '' is not defined'')
       \<in> set (errors (conversion_result module_ifc_model init_converter towers_fs (Path ''in'' ''a.ifc'') ''out''))
     \<and> \<not> success (conversion_result module_ifc_model init_converter towers_fs (Path ''in'' ''a.ifc'') ''out'')
     \<and> output_file (conversion_result module_ifc_model init_converter towers_fs (Path ''in'' ''a.ifc'') ''out'')
       = ''out/a.gml''"
    using per_building_error_tolerance
            [where fs = towers_fs and ifc_path = "Path ''in'' ''a.ifc''" and ifc_model = two_towers
               and output_dir = "''out''" and idx = 1 and e = "NameError ''ifc_model''"
               and body = "process_building module_ifc_model" and g = module_ifc_model
               and self = init_converter]
          towers_open towers_out i r
    unfolding m1 p conversion_result_def by metis
  have direct: "process_ifc_file_with (raising_body (ValueError ''bad name''))
                          init_converter towers_fs (Path ''in'' ''a.ifc'') ''out''
      = (\<lparr>self_buildings_processed = 1, self_errors = [''Error processing building 0: bad name''],
           self_warnings = []\<rparr>,
         towers_fs\<lparr>files := AList.update (Path ''out'' ''a.gml'')
             (XmlFile create_citymodel_root) (files towers_fs)\<rparr>,
         \<lparr>success = False, input_file = ''in/a.ifc'', output_file = ''out/a.gml'',
          buildings_processed = 1, errors = [''Error processing building 0: bad name''],
          warnings = []\<rparr>)"
    by code_simp
  show ?thesis
    using real r r0 i
    by (simp add: towers_open towers_out towers_converted_target direct del: One_nat_def)
qed

text \<open>
  Claim C7 (scenario). The source has the buildings \<open>#10\<close>, named \<open>Tower A\<close>, and \<open>#11\<close>,
  with an empty name. The target has \<open>Building\<close> elements named \<open>Tower A\<close> and
  \<open>Building_1\<close>, and \<open>buildings_parity\<close> is true, as the claim says. The validator,
  however, names the unnamed source building by its STEP id, \<open>Building_11\<close>, where the
  converter used its index: the name sets differ for no other reason than the default
  itself, and \<open>properties_parity\<close> is false where the claim expects true.
\<close>

theorem unnamed_building_breaks_properties_parity:
  "map cbm_name (snd (snd (count_citygml_buildings init_validator
       (conversion_files module_ifc_model init_converter towers_fs (Path ''in'' ''a.ifc'') ''out'')
       (Path ''out'' ''a.gml''))))
     = [Some ''Tower A'', Some ''Building_1'']
   \<and> map ibm_name (snd (snd (count_ifc_buildings init_validator
       (conversion_files module_ifc_model init_converter towers_fs (Path ''in'' ''a.ifc'') ''out'')
       (Path ''in'' ''a.ifc''))))
     = [''Tower A'', ''Building_11'']
   \<and> buildings_parity (snd (validate_parity init_validator
       (conversion_files module_ifc_model init_converter towers_fs (Path ''in'' ''a.ifc'') ''out'')
       (Path ''in'' ''a.ifc'') (Path ''out'' ''a.gml'')))
   \<and> \<not> properties_parity (snd (validate_parity init_validator
       (conversion_files module_ifc_model init_converter towers_fs (Path ''in'' ''a.ifc'') ''out'')
       (Path ''in'' ''a.ifc'') (Path ''out'' ''a.gml'')))"
proof -
  let ?fs = "conversion_files module_ifc_model init_converter towers_fs (Path ''in'' ''a.ifc'') ''out''"
  let ?r = "snd (validate_parity init_validator ?fs (Path ''in'' ''a.ifc'') (Path ''out'' ''a.gml''))"
  have t: "map cbm_name (snd (snd (count_citygml_buildings init_validator ?fs (Path ''out'' ''a.gml''))))
             = [Some ''Tower A'', Some ''Building_1'']"
    by (simp only: count_citygml_buildings_names towers_converted_target sum.case towers_target_names)
  have s: "map ibm_name (snd (snd (count_ifc_buildings init_validator ?fs (Path ''in'' ''a.ifc''))))
             = [''Tower A'', ''Building_11'']"
    by (simp only: count_ifc_buildings_names towers_converted_source sum.case towers_source_names)
  have n1: "ifc_buildings ?r = 2"
    by (simp add: validate_parity_ifc_buildings towers_converted_source towers_buildings)
  have n2: "citygml_buildings ?r = 2"
    using arg_cong [OF towers_target_names, of length]
    by (simp add: validate_parity_citygml_buildings towers_converted_target)
  have b: "buildings_parity ?r"
    by (simp add: validate_parity_buildings_parity n1 n2)
  have differ: "set (map Some [''Tower A'', ''Building_11''])
                  \<noteq> set [Some ''Tower A'', Some ''Building_1'']"
  proof -
    have "Some ''Building_11'' \<notin> set [Some ''Tower A'', Some ''Building_1'']" by simp
    moreover have "Some ''Building_11'' \<in> set (map Some [''Tower A'', ''Building_11''])" by simp
    ultimately show ?thesis by blast
  qed
  have p: "\<not> properties_parity ?r"
    unfolding validate_parity_properties_parity n1 n2 towers_converted_source towers_converted_target
      sum.case towers_target_names towers_source_names
    using differ by simp
  from t s b p show ?thesis by simp
qed

text \<open>
  Claim C8 says that the exit code is 2 when the input directory is missing. With both
  arguments given and no such directory, \<open>main\<close> exits with 1.
\<close>

theorem convert_exit_code_counterexample:
  "snd (main module_ifc_model [''ifc_to_citygml.py'', ''missing'', ''out''] towers_fs) = 1"
  by (simp add: main_def path_exists_def towers_fs_def)

text \<open>
  Claim C8, amended. The exit code of the convert command is 2 only when fewer than two
  arguments are given; it is 1 when the input directory is missing, when no input file
  is found, and when some conversion failed; it is 0 when every input file converted
  successfully.
\<close>

theorem convert_exit_code:
  "snd (main g argv fs)
     = (if length argv < 3 then 2
        else if \<not> path_exists fs (argv ! 1) then 1
        else if glob_ifc (mkdir fs (argv ! 2)) (argv ! 1) = [] then 1
        else if list_all success
                  (conversion_results g (argv ! 2) (glob_ifc (mkdir fs (argv ! 2)) (argv ! 1))
                     init_converter (mkdir fs (argv ! 2)))
             then 0 else 1)"
proof -
  let ?fs = "mkdir fs (argv ! 2)"
  let ?files = "glob_ifc ?fs (argv ! 1)"
  let ?run = "convert_files g (argv ! 2) ?files (init_converter, ?fs, 0, 0)"
  have n: "fst (snd (snd ?run)) = length (filter success (conversion_results g (argv ! 2) ?files init_converter ?fs))"
    by (simp add: convert_files_successes)
  have "(fst (snd (snd ?run)) = length ?files)
          = list_all success (conversion_results g (argv ! 2) ?files init_converter ?fs)"
    unfolding n using all_succeeded [of success "conversion_results g (argv ! 2) ?files init_converter ?fs"]
    by (simp add: length_conversion_results)
  then show ?thesis
    by (simp add: main_def Let_def split_beta)
qed

text \<open>
  Claim C8, amended, at three runs: a directory whose one file converts (0), a directory
  whose one file fails (1), and a missing argument (2).
\<close>

theorem convert_exit_code_witness:
  "snd (main module_ifc_model [''ifc_to_citygml.py'', ''in'', ''out''] storeys_only_fs) = 0
   \<and> snd (main module_ifc_model [''ifc_to_citygml.py'', ''in'', ''out''] towers_fs) = 1
   \<and> snd (main module_ifc_model [''ifc_to_citygml.py'', ''in''] towers_fs) = 2"
proof -
  have m1: "mkdir storeys_only_fs ''out'' = storeys_only_fs"
    by (simp add: mkdir_def storeys_only_fs_def)
  have m2: "mkdir towers_fs ''out'' = towers_fs"
    by (simp add: mkdir_def towers_fs_def)
  have d1: "''out'' \<in> set (dirs storeys_only_fs)" by (simp add: storeys_only_fs_def)
  have r1: "list_all success (conversion_results module_ifc_model ''out'' [Path ''in'' ''s.ifc'']
              init_converter storeys_only_fs)"
    by (simp add: process_ifc_file_written [OF storeys_only_open d1] storeys_only_buildings
          building_errors_def)
  have r2: "\<not> list_all success (conversion_results module_ifc_model ''out'' [Path ''in'' ''a.ifc'']
              init_converter towers_fs)"
    by (simp add: process_ifc_file_written [OF towers_open towers_out] towers_buildings
          module_ifc_model_def building_errors_unbound)
  have e1: "path_exists storeys_only_fs ''in''" by (simp add: path_exists_def storeys_only_fs_def)
  have e2: "path_exists towers_fs ''in''" by (simp add: path_exists_def towers_fs_def)
  have a: "snd (main module_ifc_model [''ifc_to_citygml.py'', ''in'', ''out''] storeys_only_fs) = 0"
    unfolding convert_exit_code [of module_ifc_model "[''ifc_to_citygml.py'', ''in'', ''out'']" storeys_only_fs]
    using r1 by (simp add: glob_storeys_only m1 e1 cong del: if_weak_cong)
  have b: "snd (main module_ifc_model [''ifc_to_citygml.py'', ''in'', ''out''] towers_fs) = 1"
    unfolding convert_exit_code [of module_ifc_model "[''ifc_to_citygml.py'', ''in'', ''out'']" towers_fs]
    using r2 by (simp add: glob_towers m2 e2 cong del: if_weak_cong)
  have c: "snd (main module_ifc_model [''ifc_to_citygml.py'', ''in''] towers_fs) = 2"
    unfolding convert_exit_code [of module_ifc_model "[''ifc_to_citygml.py'', ''in'']" towers_fs]
    by simp
  from a b c show ?thesis by simp
qed

text \<open>
  Claim C9. \<open>process_building\<close> appends the \<open>Building\<close> element before anything in it
  can raise, and it stays: whatever the outcome, the tree has one \<open>Building\<close> element
  more. So the written document has exactly one \<open>Building\<close> element per source building,
  each with the resolved name in its first name child (read here as the validator reads
  it), while \<open>buildings_processed\<close> counts the buildings without an error only:
  processed buildings and errors add up to the number of buildings, and in the module as
  written \<open>buildings_processed\<close> is 0 however many elements the document has.
\<close>

theorem building_elements_survive_errors:
  assumes "ifcopenshell_open fs ifc_path = Inr ifc_model" and "output_dir \<in> set (dirs fs)"
  shows "length (xpath_all (fst (process_building g ifc_model idx building citymodel)) (CORE @ ''Building''))
           = Suc (length (xpath_all citymodel (CORE @ ''Building'')))
       \<and> fst (snd (count_citygml_buildings v (conversion_files g self fs ifc_path output_dir)
                      (output_path ifc_path output_dir)))
           = length (by_type ifc_model ''IfcBuilding'')
       \<and> map cbm_name (snd (snd (count_citygml_buildings v (conversion_files g self fs ifc_path output_dir)
                                    (output_path ifc_path output_dir))))
           = map (\<lambda>(i, b). Some (or_else (Name b) (''Building_'' @ str_nat i)))
               (enumerate 0 (by_type ifc_model ''IfcBuilding''))
       \<and> buildings_processed (conversion_result g self fs ifc_path output_dir)
             + length (errors (conversion_result g self fs ifc_path output_dir))
           = length (by_type ifc_model ''IfcBuilding'')
       \<and> (g = module_ifc_model \<longrightarrow>
            buildings_processed (conversion_result g self fs ifc_path output_dir) = 0
            \<and> length (errors (conversion_result g self fs ifc_path output_dir))
                = length (by_type ifc_model ''IfcBuilding''))"
proof -
  have a: "length (xpath_all (fst (process_building g ifc_model idx building citymodel)) (CORE @ ''Building''))
           = Suc (length (xpath_all citymodel (CORE @ ''Building'')))"
    by (simp add: process_building_appends)
  have b: "fst (snd (count_citygml_buildings v (conversion_files g self fs ifc_path output_dir)
                      (output_path ifc_path output_dir)))
           = length (by_type ifc_model ''IfcBuilding'')"
    by (simp add: count_citygml_buildings_count written_document [OF assms] xpath_all_citygml_document)
  have c: "map cbm_name (snd (snd (count_citygml_buildings v (conversion_files g self fs ifc_path output_dir)
                                    (output_path ifc_path output_dir))))
           = map (\<lambda>(i, b). Some (or_else (Name b) (''Building_'' @ str_nat i)))
               (enumerate 0 (by_type ifc_model ''IfcBuilding''))"
    by (simp add: count_citygml_buildings_names written_document [OF assms] xpath_all_citygml_document
          comp_def split_beta serialized_building_name resolved_name_def)
  have d: "buildings_processed (conversion_result g self fs ifc_path output_dir)
             + length (errors (conversion_result g self fs ifc_path output_dir))
           = length (by_type ifc_model ''IfcBuilding'')"
    using errors_or_processed [of g 0 "by_type ifc_model ''IfcBuilding''"]
    by (simp add: conversion_result_def process_ifc_file_written [OF assms])
  have e: "g = module_ifc_model \<longrightarrow>
            buildings_processed (conversion_result g self fs ifc_path output_dir) = 0
            \<and> length (errors (conversion_result g self fs ifc_path output_dir))
                = length (by_type ifc_model ''IfcBuilding'')"
    by (simp add: conversion_result_def process_ifc_file_written [OF assms] module_ifc_model_def
          error_free_unbound building_errors_unbound)
  from a b c d e show ?thesis by blast
qed

text \<open>Claim C9 at the file with the two buildings: two elements, none processed.\<close>

theorem building_elements_survive_errors_witness:
  "ifcopenshell_open towers_fs (Path ''in'' ''a.ifc'') = Inr two_towers
   \<and> ''out'' \<in> set (dirs towers_fs)
   \<and> fst (snd (count_citygml_buildings init_validator
                  (conversion_files module_ifc_model init_converter towers_fs (Path ''in'' ''a.ifc'') ''out'')
                  (output_path (Path ''in'' ''a.ifc'') ''out''))) = 2
   \<and> map cbm_name (snd (snd (count_citygml_buildings init_validator
                  (conversion_files module_ifc_model init_converter towers_fs (Path ''in'' ''a.ifc'') ''out'')
                  (output_path (Path ''in'' ''a.ifc'') ''out''))))
       = [Some ''Tower A'', Some ''Building_1'']
   \<and> buildings_processed (conversion_result module_ifc_model init_converter towers_fs (Path ''in'' ''a.ifc'') ''out'') = 0
   \<and> length (errors (conversion_result module_ifc_model init_converter towers_fs (Path ''in'' ''a.ifc'') ''out'')) = 2"
  using building_elements_survive_errors [OF towers_open towers_out,
          of module_ifc_model 0 "blank_entity 10 ''IfcBuilding''" create_citymodel_root
             init_validator init_converter]
  by (simp add: towers_open towers_out towers_buildings blank_entity_def or_else_def
        str_nat_digit digit_char_def)

text \<open>
  Claim C10 (order independence). The result of converting a file after any sequence of
  other conversions, whatever state those left in the converter, is the result of
  converting it first with a fresh converter; and the result of validating a pair does
  not depend on the validator's state. Both calls overwrite every field of the instance
  before they do anything else. Earlier conversions write files whose names end in
  \<open>.gml\<close>, so the input is taken to have another name, as every file \<open>main\<close> finds has.
\<close>

theorem order_independence:
  assumes "\<not> endswith (name ifc_path) ''.gml''"
  shows "conversion_result g (fst (convert_files g d others (self, fs, n, t)))
            (fst (snd (convert_files g d others (self, fs, n, t)))) ifc_path output_dir
           = conversion_result g init_converter fs ifc_path output_dir
       \<and> snd (validate_parity v fs2 ifc_path citygml_path)
           = snd (validate_parity init_validator fs2 ifc_path citygml_path)"
proof -
  have "conversion_result g (fst (convert_files g d others (self, fs, n, t)))
            (fst (snd (convert_files g d others (self, fs, n, t)))) ifc_path output_dir
           = conversion_result g init_converter fs ifc_path output_dir"
    using convert_files_preserves [OF assms, of g d others self fs n t]
    by (intro conversion_result_reads) simp_all
  then show ?thesis
    using validate_parity_resets [of v fs2 ifc_path citygml_path] by simp
qed

text \<open>Claim C10: the storey file converted after the file with the two buildings.\<close>

theorem order_independence_witness:
  "\<not> endswith (name (Path ''in'' ''s.ifc'')) ''.gml''
   \<and> conversion_result module_ifc_model
         (fst (convert_files module_ifc_model ''out'' [Path ''in'' ''a.ifc''] (init_converter, two_files_fs, 0, 0)))
         (fst (snd (convert_files module_ifc_model ''out'' [Path ''in'' ''a.ifc''] (init_converter, two_files_fs, 0, 0))))
         (Path ''in'' ''s.ifc'') ''out''
       = conversion_result module_ifc_model init_converter two_files_fs (Path ''in'' ''s.ifc'') ''out''
   \<and> snd (validate_parity \<lparr>v_errors = [''Building count mismatch: IFC=2, CityGML=0''], v_warnings = []\<rparr>
              two_files_fs (Path ''in'' ''s.ifc'') (Path ''out'' ''s.gml''))
       = snd (validate_parity init_validator two_files_fs (Path ''in'' ''s.ifc'') (Path ''out'' ''s.gml''))"
proof -
  have h: "\<not> endswith (name (Path ''in'' ''s.ifc'')) ''.gml''"
    by (simp add: endswith_def)
  show ?thesis
    using order_independence [OF h, of module_ifc_model "''out''" "[Path ''in'' ''a.ifc'']"
            init_converter two_files_fs 0 0 "''out''"
            "\<lparr>v_errors = [''Building count mismatch: IFC=2, CityGML=0''], v_warnings = []\<rparr>"
            two_files_fs "Path ''out'' ''s.gml''"] h
    by simp
qed

end
